theory Spec2Isabelle
  imports Complex_Main
begin

section \<open>Data model\<close>

text \<open>
  Go strings are byte strings and are modelled as \<open>string\<close> (a list of 8-bit characters).
  The string-typed enumerations of the source (\<open>AuthType\<close>, \<open>LLMProvider\<close>, \<open>ActionType\<close>,
  \<open>TaskStatus\<close>, \<open>DocFormat\<close>) stay strings, so that values outside the declared constants
  exist in the model as they do in the program. \<open>time.Time\<close> and \<open>time.Duration\<close> are
  integers counting nanoseconds. A Go pointer that may be nil is an \<open>option\<close>.
\<close>

type_synonym gotime = int
type_synonym duration = int

definition Millisecond :: duration where "Millisecond = 1000000"
definition Second :: duration where "Second = 1000 * Millisecond"
definition Minute :: duration where "Minute = 60 * Second"
definition Hour :: duration where "Hour = 60 * Minute"

subsection \<open>domain: authentication\<close>

definition AuthTypeNone :: string where "AuthTypeNone = ''none''"
definition AuthTypeForm :: string where "AuthTypeForm = ''form''"
definition AuthTypeSSO :: string where "AuthTypeSSO = ''sso''"
definition AuthTypeManual :: string where "AuthTypeManual = ''manual''"
definition AuthTypeCookie :: string where "AuthTypeCookie = ''cookie''"
definition AuthTypeToken :: string where "AuthTypeToken = ''token''"

record Cookie =
  Cookie_Name :: string
  Cookie_Value :: string
  Cookie_Domain :: string
  Cookie_Path :: string
  Cookie_Expires :: gotime
  Cookie_Secure :: bool
  Cookie_HTTPOnly :: bool

record Credentials =
  Cred_Username :: string
  Cred_Password :: string
  Cred_Token :: string
  Cred_APIKey :: string

record SSOConfig =
  SSO_Provider :: string
  SSO_LoginURL :: string
  SSO_CallbackURL :: string
  SSO_ClientID :: string
  SSO_ClientSecret :: string
  SSO_TenantID :: string
  SSO_Domain :: string

record AuthConfig =
  Auth_Type :: string
  Auth_Credentials :: "Credentials option"
  Auth_SSOConfig :: "SSOConfig option"
  Auth_SessionID :: string
  Auth_Cookies :: "Cookie list"
  Auth_Headers :: "(string \<times> string) list"

record Session =
  Session_ID :: string
  Session_UserID :: string
  Session_Cookies :: "Cookie list"
  Session_Headers :: "(string \<times> string) list"
  Session_ExpiresAt :: gotime
  Session_CreatedAt :: gotime

subsection \<open>domain: language-model configuration\<close>

definition LLMProviderOpenAI :: string where "LLMProviderOpenAI = ''openai''"
definition LLMProviderAnthropic :: string where "LLMProviderAnthropic = ''anthropic''"
definition LLMProviderDeepSeek :: string where "LLMProviderDeepSeek = ''deepseek''"
definition LLMProviderQwen :: string where "LLMProviderQwen = ''qwen''"
definition LLMProviderMoonshot :: string where "LLMProviderMoonshot = ''moonshot''"
definition LLMProviderOllama :: string where "LLMProviderOllama = ''ollama''"

text \<open>\<open>float64\<close> option values come from decoded JSON numbers, so they are finite; they are
  modelled as rationals.\<close>

record LLMOptions =
  Opt_Temperature :: rat
  Opt_MaxTokens :: int
  Opt_TopP :: rat
  Opt_FrequencyPenalty :: rat
  Opt_PresencePenalty :: rat
  Opt_Timeout :: int
  Opt_RetryCount :: int

record LLMConfig =
  LLM_Provider :: string
  LLM_Model :: string
  LLM_Endpoint :: string
  LLM_APIKey :: string
  LLM_Options :: "LLMOptions option"

subsection \<open>browser: snapshots and actions\<close>

record Element =
  El_TagName :: string
  El_Selector :: string
  El_Text :: string
  El_Visible :: bool
  El_Clickable :: bool

record PageSnapshot =
  Snap_URL :: string
  Snap_Title :: string
  Snap_HTML :: string
  Snap_A11yTree :: string
  Snap_Elements :: "Element list"
  Snap_Timestamp :: gotime

record ScreenshotOptions =
  Shot_FullPage :: bool
  Shot_Quality :: int
  Shot_Type :: string

definition ActionNavigate :: string where "ActionNavigate = ''navigate''"
definition ActionClick :: string where "ActionClick = ''click''"
definition ActionFill :: string where "ActionFill = ''fill''"
definition ActionHover :: string where "ActionHover = ''hover''"
definition ActionSelect :: string where "ActionSelect = ''select''"
definition ActionScreenshot :: string where "ActionScreenshot = ''screenshot''"
definition ActionWait :: string where "ActionWait = ''wait''"
definition ActionScroll :: string where "ActionScroll = ''scroll''"

subsection \<open>planner: plans, steps, messages\<close>

record ActionStep =
  Step_Order :: int
  Step_Action :: string
  Step_Target :: string
  Step_Value :: string
  Step_WaitFor :: string
  Step_Screenshot :: bool
  Step_Description :: string

record TaskPlan =
  Plan_TaskID :: string
  Plan_Description :: string
  Plan_Steps :: "ActionStep list"

record StepResult =
  Res_Success :: bool
  Res_Error :: string
  Res_Screenshot :: string

record PlanRequest =
  PReq_UserInput :: string
  PReq_TargetURL :: string
  PReq_PageSnapshot :: "PageSnapshot option"

record Message =
  Msg_Role :: string
  Msg_Content :: string

record Usage =
  Usage_PromptTokens :: int
  Usage_CompletionTokens :: int
  Usage_TotalTokens :: int

record Response =
  Resp_Content :: string
  Resp_FinishReason :: string
  Resp_Usage :: "Usage option"

text \<open>The zero values \<open>var plan TaskPlan\<close> and \<open>var refined ActionStep\<close>.\<close>

definition zero_ActionStep :: ActionStep where
  "zero_ActionStep = \<lparr>Step_Order = 0, Step_Action = [], Step_Target = [], Step_Value = [],
     Step_WaitFor = [], Step_Screenshot = False, Step_Description = []\<rparr>"

definition zero_TaskPlan :: TaskPlan where
  "zero_TaskPlan = \<lparr>Plan_TaskID = [], Plan_Description = [], Plan_Steps = []\<rparr>"

subsection \<open>planner: the wire shapes of the two providers\<close>

text \<open>The request body is the Go map handed to \<open>json.Marshal\<close>; optional keys are options.\<close>

record ChatBody =
  Body_model :: string
  Body_messages :: "Message list"
  Body_temperature :: "rat option"
  Body_max_tokens :: "int option"

record HttpRequest =
  Req_Method :: string
  Req_URL :: string
  Req_Header :: "(string \<times> string) list"
  Req_Body :: ChatBody

record HttpResponse =
  HResp_StatusCode :: int
  HResp_Status :: string
  HResp_Body :: string

record OpenAIChoice =
  Choice_Content :: string
  Choice_FinishReason :: string

record OpenAIResponse =
  OA_Choices :: "OpenAIChoice list"
  OA_Usage :: Usage

record AnthropicResponse =
  An_Content :: "string list"
  An_StopReason :: string
  An_InputTokens :: int
  An_OutputTokens :: int

subsection \<open>domain: tasks and results\<close>

definition TaskStatusPending :: string where "TaskStatusPending = ''pending''"
definition TaskStatusRunning :: string where "TaskStatusRunning = ''running''"
definition TaskStatusCompleted :: string where "TaskStatusCompleted = ''completed''"
definition TaskStatusFailed :: string where "TaskStatusFailed = ''failed''"
definition TaskStatusCancelled :: string where "TaskStatusCancelled = ''cancelled''"

definition DocFormatMarkdown :: string where "DocFormatMarkdown = ''markdown''"
definition DocFormatHTML :: string where "DocFormatHTML = ''html''"

record OutputConfig =
  Out_Formats :: "string list"
  Out_Language :: string
  Out_Title :: string

record DomainStepResult =
  DRes_Order :: int
  DRes_Success :: bool
  DRes_Error :: string
  DRes_ExecutedAt :: gotime

record Screenshot =
  Scr_ID :: string
  Scr_StepOrder :: int
  Scr_CreatedAt :: gotime

record DocumentInfo =
  Doc_ID :: string
  Doc_Format :: string
  Doc_Content :: string
  Doc_Size :: int
  Doc_CreatedAt :: gotime

record TaskResult =
  TR_Steps :: "DomainStepResult list"
  TR_Screenshots :: "Screenshot list"
  TR_Documents :: "DocumentInfo list"
  TR_Duration :: duration

record Task =
  Task_ID :: string
  Task_Description :: string
  Task_TargetURL :: string
  Task_Status :: string
  Task_Auth :: "AuthConfig option"
  Task_LLM :: LLMConfig
  Task_Output :: OutputConfig
  Task_Result :: "TaskResult option"
  Task_ErrorMessage :: string
  Task_CreatedAt :: gotime
  Task_UpdatedAt :: gotime
  Task_CompletedAt :: "gotime option"


section \<open>The environment: call history and oracles\<close>

text \<open>
  Everything outside the repository (the Playwright page behind the controller, the HTTP
  transport, the clock, the UUID source, \<open>encoding/json\<close>, \<open>net/url\<close>) is an oracle: a
  function of the history of calls made so far, so any deterministic stateful collaborator is
  an instance. Each call of the program appends its event to the history. The history also
  records the two entry points of the planner with their arguments.
\<close>

datatype select_ev = SelDone string | SelTimeout | SelTick

datatype event =
    EvConnect
  | EvClose
  | EvNavigate string
  | EvGetCurrentURL
  | EvWaitForNavigation duration
  | EvClick string
  | EvFill string string
  | EvHover string
  | EvSelect string string
  | EvWaitForSelector string duration
  | EvTakeSnapshot
  | EvTakeScreenshot ScreenshotOptions
  | EvGetCookies
  | EvSetCookies "Cookie list"
  | EvSleep duration
  | EvUUID
  | EvSelectWait
  | EvHttpDo HttpRequest
  | EvParseTask PlanRequest
  | EvRefineStep ActionStep PageSnapshot
  | EvGenerate string

type_synonym history = "event list"

record Env =
  pw_Connect :: "history \<Rightarrow> string option"
  pw_Goto :: "history \<Rightarrow> string \<Rightarrow> string option"
  pw_URL :: "history \<Rightarrow> string"
  pw_Title :: "history \<Rightarrow> string"
  pw_Evaluate :: "history \<Rightarrow> (string \<times> string) list"
  pw_WaitForLoadState :: "history \<Rightarrow> duration \<Rightarrow> string option"
  pw_Click :: "history \<Rightarrow> string \<Rightarrow> string option"
  pw_Fill :: "history \<Rightarrow> string \<Rightarrow> string \<Rightarrow> string option"
  pw_Hover :: "history \<Rightarrow> string \<Rightarrow> string option"
  pw_SelectOption :: "history \<Rightarrow> string \<Rightarrow> string \<Rightarrow> string option"
  pw_WaitForSelector :: "history \<Rightarrow> string \<Rightarrow> duration \<Rightarrow> string option"
  pw_Screenshot :: "history \<Rightarrow> ScreenshotOptions \<Rightarrow> string + string"
  pw_Cookies :: "history \<Rightarrow> string + Cookie list"
  pw_AddCookies :: "history \<Rightarrow> Cookie list \<Rightarrow> string option"
  sys_Now :: "history \<Rightarrow> gotime"
  sys_UUID :: "history \<Rightarrow> string"
  sys_Select :: "history \<Rightarrow> select_ev"
  sys_HttpDo :: "history \<Rightarrow> HttpRequest \<Rightarrow> string + HttpResponse"
  sys_NewRequestErr :: "string \<Rightarrow> string option"
  json_DecodeOpenAI :: "string \<Rightarrow> string + OpenAIResponse"
  json_DecodeAnthropic :: "string \<Rightarrow> string + AnthropicResponse"
  json_UnmarshalPlan :: "string \<Rightarrow> TaskPlan \<Rightarrow> string option \<times> TaskPlan"
  json_UnmarshalStep :: "string \<Rightarrow> ActionStep \<Rightarrow> string option \<times> ActionStep"
  doc_Generate :: "string \<Rightarrow> Task \<Rightarrow> TaskPlan \<Rightarrow> StepResult list \<Rightarrow> string + string"

text \<open>
  An error result is \<open>string option\<close> (\<open>None\<close> is Go's nil error, \<open>Some msg\<close> carries
  \<open>err.Error()\<close>) or, with a value, \<open>string + 'a\<close> (\<open>Inl msg\<close> the error).
\<close>

section \<open>browser.PlaywrightController\<close>

definition Connect :: "Env \<Rightarrow> history \<Rightarrow> string option \<times> history" where
  "Connect env h = (pw_Connect env h, h @ [EvConnect])"

definition Close :: "Env \<Rightarrow> history \<Rightarrow> history" where
  "Close env h = h @ [EvClose]"

definition Navigate :: "Env \<Rightarrow> string \<Rightarrow> history \<Rightarrow> string option \<times> history" where
  "Navigate env url h = (pw_Goto env h url, h @ [EvNavigate url])"

definition GetCurrentURL :: "Env \<Rightarrow> history \<Rightarrow> string \<times> history" where
  "GetCurrentURL env h = (pw_URL env h, h @ [EvGetCurrentURL])"

definition WaitForNavigation :: "Env \<Rightarrow> duration \<Rightarrow> history \<Rightarrow> string option \<times> history" where
  "WaitForNavigation env timeout h = (pw_WaitForLoadState env h timeout, h @ [EvWaitForNavigation timeout])"

definition Click :: "Env \<Rightarrow> string \<Rightarrow> history \<Rightarrow> string option \<times> history" where
  "Click env selector h = (pw_Click env h selector, h @ [EvClick selector])"

definition Fill :: "Env \<Rightarrow> string \<Rightarrow> string \<Rightarrow> history \<Rightarrow> string option \<times> history" where
  "Fill env selector v h = (pw_Fill env h selector v, h @ [EvFill selector v])"

definition Hover :: "Env \<Rightarrow> string \<Rightarrow> history \<Rightarrow> string option \<times> history" where
  "Hover env selector h = (pw_Hover env h selector, h @ [EvHover selector])"

definition Select :: "Env \<Rightarrow> string \<Rightarrow> string \<Rightarrow> history \<Rightarrow> string option \<times> history" where
  "Select env selector v h = (pw_SelectOption env h selector v, h @ [EvSelect selector v])"

definition WaitForSelector :: "Env \<Rightarrow> string \<Rightarrow> duration \<Rightarrow> history \<Rightarrow> string option \<times> history" where
  "WaitForSelector env selector timeout h =
     (pw_WaitForSelector env h selector timeout, h @ [EvWaitForSelector selector timeout])"

text \<open>
  \<open>TakeSnapshot\<close> of the controller ignores the errors of \<open>Title\<close> and \<open>Evaluate\<close> (an
  evaluation error gives no elements) and always returns a snapshot with a nil error, so the
  model returns the snapshot alone. \<open>pw_Evaluate\<close> is the tag name and text of each element
  the script returned.
\<close>

definition TakeSnapshot :: "Env \<Rightarrow> history \<Rightarrow> PageSnapshot \<times> history" where
  "TakeSnapshot env h =
     (\<lparr>Snap_URL = pw_URL env h, Snap_Title = pw_Title env h, Snap_HTML = [], Snap_A11yTree = [],
       Snap_Elements = map (\<lambda>(tag, txt). \<lparr>El_TagName = tag, El_Selector = [], El_Text = txt,
                                            El_Visible = True, El_Clickable = True\<rparr>) (pw_Evaluate env h),
       Snap_Timestamp = sys_Now env h\<rparr>,
      h @ [EvTakeSnapshot])"

definition TakeScreenshot :: "Env \<Rightarrow> ScreenshotOptions \<Rightarrow> history \<Rightarrow> (string + string) \<times> history" where
  "TakeScreenshot env opts h = (pw_Screenshot env h opts, h @ [EvTakeScreenshot opts])"

definition GetCookies :: "Env \<Rightarrow> history \<Rightarrow> (string + Cookie list) \<times> history" where
  "GetCookies env h =
     (case pw_Cookies env h of
        Inl e \<Rightarrow> Inl e
      | Inr cs \<Rightarrow> Inr (map (\<lambda>c. c\<lparr>Cookie_Expires := 0\<rparr>) cs),
      h @ [EvGetCookies])"

definition SetCookies :: "Env \<Rightarrow> Cookie list \<Rightarrow> history \<Rightarrow> string option \<times> history" where
  "SetCookies env cookies h = (pw_AddCookies env h cookies, h @ [EvSetCookies cookies])"

definition Sleep :: "duration \<Rightarrow> history \<Rightarrow> history" where
  "Sleep d h = h @ [EvSleep d]"

definition NewUUID :: "Env \<Rightarrow> history \<Rightarrow> string \<times> history" where
  "NewUUID env h = (sys_UUID env h, h @ [EvUUID])"

section \<open>auth.Service\<close>

text \<open>\<open>strings.Contains\<close>, and \<open>strings.ToLower\<close> on the ASCII letters.\<close>

fun Contains :: "string \<Rightarrow> string \<Rightarrow> bool" where
  "Contains [] sub = (sub = [])"
| "Contains (c # cs) sub = (take (length sub) (c # cs) = sub \<or> Contains cs sub)"

definition ToLower :: "string \<Rightarrow> string" where
  "ToLower s = map (\<lambda>c. if (65::nat) \<le> of_char c \<and> of_char c \<le> (90::nat)
                          then char_of (of_char c + (32::nat)) else c) s"

text \<open>The session literal that every successful strategy returns: a fresh id, the given
  cookies and headers, expiry 24 hours after the clock reading, creation at the reading.\<close>

definition newSession :: "Env \<Rightarrow> Cookie list \<Rightarrow> (string \<times> string) list \<Rightarrow> history \<Rightarrow> Session \<times> history" where
  "newSession env cookies headers h =
     (let (sid, h1) = NewUUID env h in
      (\<lparr>Session_ID = sid, Session_UserID = [], Session_Cookies = cookies, Session_Headers = headers,
        Session_ExpiresAt = sys_Now env h1 + 24 * Hour, Session_CreatedAt = sys_Now env h1\<rparr>, h1))"

definition createEmptySession :: "Env \<Rightarrow> history \<Rightarrow> Session \<times> history" where
  "createEmptySession env h = newSession env [] [] h"

text \<open>The two loops over candidate selectors: stop at the first one the page accepts.\<close>

fun tryFill :: "Env \<Rightarrow> string list \<Rightarrow> string \<Rightarrow> history \<Rightarrow> history" where
  "tryFill env [] v h = h"
| "tryFill env (sel # sels) v h =
     (case Fill env sel v h of (None, h1) \<Rightarrow> h1 | (Some e, h1) \<Rightarrow> tryFill env sels v h1)"

fun tryClick :: "Env \<Rightarrow> string list \<Rightarrow> history \<Rightarrow> history" where
  "tryClick env [] h = h"
| "tryClick env (sel # sels) h =
     (case Click env sel h of (None, h1) \<Rightarrow> h1 | (Some e, h1) \<Rightarrow> tryClick env sels h1)"

definition harvestSession :: "Env \<Rightarrow> history \<Rightarrow> (string + Session) \<times> history" where
  "harvestSession env h =
     (case GetCookies env h of
        (Inl e, h1) \<Rightarrow> (Inl (''get cookies: '' @ e), h1)
      | (Inr cookies, h1) \<Rightarrow> (let (s, h2) = newSession env cookies [] h1 in (Inr s, h2)))"

text \<open>The literal selectors of the login strategies (\<open>CHR 0x27\<close> is the single quote).\<close>

definition passwordSelector :: string where
  "passwordSelector = ''input[type='' @ [CHR 0x27] @ ''password'' @ [CHR 0x27] @ '']''"

definition formUsernameSelectors :: "string list" where
  "formUsernameSelectors =
     [''input[name='' @ [CHR 0x27] @ ''username'' @ [CHR 0x27] @ '']'',
      ''input[name='' @ [CHR 0x27] @ ''email'' @ [CHR 0x27] @ '']'',
      ''input[type='' @ [CHR 0x27] @ ''email'' @ [CHR 0x27] @ '']'',
      ''input[id='' @ [CHR 0x27] @ ''username'' @ [CHR 0x27] @ '']'',
      ''input[id='' @ [CHR 0x27] @ ''email'' @ [CHR 0x27] @ '']'']"

definition formSubmitSelectors :: "string list" where
  "formSubmitSelectors =
     [''button[type='' @ [CHR 0x27] @ ''submit'' @ [CHR 0x27] @ '']'',
      ''input[type='' @ [CHR 0x27] @ ''submit'' @ [CHR 0x27] @ '']'',
      ''button:has-text('' @ [CHR 0x27, CHR 0xE7, CHR 0x99, CHR 0xBB, CHR 0xE5, CHR 0xBD, CHR 0x95, CHR 0x27] @ '')'',
      ''button:has-text('' @ [CHR 0x27] @ ''Login'' @ [CHR 0x27] @ '')'']"

definition ssoUsernameSelectors :: "string list" where
  "ssoUsernameSelectors =
     [''input[name='' @ [CHR 0x27] @ ''username'' @ [CHR 0x27] @ '']'',
      ''input[name='' @ [CHR 0x27] @ ''email'' @ [CHR 0x27] @ '']'',
      ''input[type='' @ [CHR 0x27] @ ''email'' @ [CHR 0x27] @ '']'',
      ''input[id='' @ [CHR 0x27] @ ''username'' @ [CHR 0x27] @ '']'']"

definition ssoSubmitSelectors :: "string list" where
  "ssoSubmitSelectors =
     [''button[type='' @ [CHR 0x27] @ ''submit'' @ [CHR 0x27] @ '']'',
      ''input[type='' @ [CHR 0x27] @ ''submit'' @ [CHR 0x27] @ '']'',
      ''#submit'']"

definition authenticateWithForm :: "Env \<Rightarrow> AuthConfig \<Rightarrow> history \<Rightarrow> (string + Session) \<times> history" where
  "authenticateWithForm env config h =
     (case Auth_Credentials config of
        None \<Rightarrow> (Inl ''credentials required for form auth'', h)
      | Some creds \<Rightarrow>
          (case WaitForSelector env passwordSelector (10 * Second) h of
             (Some e, h1) \<Rightarrow> (Inl (''login form not found: '' @ e), h1)
           | (None, h1) \<Rightarrow>
               (let h2 = tryFill env formUsernameSelectors (Cred_Username creds) h1
                in case Fill env passwordSelector (Cred_Password creds) h2 of
                     (Some e, h3) \<Rightarrow> (Inl (''fill password: '' @ e), h3)
                   | (None, h3) \<Rightarrow>
                       (let h4 = tryClick env formSubmitSelectors h3
                        in harvestSession env (Sleep (3 * Second) h4)))))"

definition isOnSSOPage :: "string \<Rightarrow> SSOConfig \<Rightarrow> bool" where
  "isOnSSOPage url ssoConfig =
     (if SSO_LoginURL ssoConfig \<noteq> [] then Contains url (SSO_LoginURL ssoConfig)
      else list_ex (\<lambda>indicator. Contains (ToLower url) indicator)
             [''login'', ''signin'', ''auth'', ''sso'', ''oauth'', ''saml''])"

definition isOnLoginPage :: "string \<Rightarrow> bool" where
  "isOnLoginPage url =
     list_ex (\<lambda>indicator. Contains (ToLower url) indicator)
       [''login'', ''signin'', ''sign-in'', ''auth'']"

definition performSSOLogin :: "Env \<Rightarrow> Credentials \<Rightarrow> SSOConfig \<Rightarrow> history \<Rightarrow> string option \<times> history" where
  "performSSOLogin env creds ssoConfig h =
     (let h1 = tryFill env ssoUsernameSelectors (Cred_Username creds) h
      in case Fill env passwordSelector (Cred_Password creds) h1 of
           (Some e, h2) \<Rightarrow> (Some (''fill password: '' @ e), h2)
         | (None, h2) \<Rightarrow> (None, tryClick env ssoSubmitSelectors h2))"

definition authenticateWithSSO :: "Env \<Rightarrow> AuthConfig \<Rightarrow> history \<Rightarrow> (string + Session) \<times> history" where
  "authenticateWithSSO env config h =
     (case Auth_SSOConfig config of
        None \<Rightarrow> (Inl ''sso config required'', h)
      | Some ssoConfig \<Rightarrow>
          (case WaitForNavigation env (10 * Second) h of
             (Some e, h1) \<Rightarrow> (Inl (''wait for sso redirect: '' @ e), h1)
           | (None, h1) \<Rightarrow>
               (let (currentURL, h2) = GetCurrentURL env h1;
                    (loginErr, h3) =
                      (if isOnSSOPage currentURL ssoConfig
                       then (case Auth_Credentials config of
                               None \<Rightarrow> (None, h2)
                             | Some creds \<Rightarrow> performSSOLogin env creds ssoConfig h2)
                       else (None, h2))
                in case loginErr of
                     Some e \<Rightarrow> (Inl (''sso login: '' @ e), h3)
                   | None \<Rightarrow> harvestSession env (Sleep (5 * Second) h3))))"

text \<open>
  The manual-login loop selects over the context, a 5-minute timer and a 2-second ticker.
  \<open>sys_Select\<close> says which case fires. At most 150 ticks fit before the timer, which then
  fires: the fuel is that bound, and running out of it is the timeout, so the loop is total.
\<close>

fun manualLoop :: "Env \<Rightarrow> nat \<Rightarrow> history \<Rightarrow> (string + Session) \<times> history" where
  "manualLoop env 0 h = (Inl ''manual login timeout'', h @ [EvSelectWait])"
| "manualLoop env (Suc n) h =
     (case sys_Select env h of
        SelDone e \<Rightarrow> (Inl e, h @ [EvSelectWait])
      | SelTimeout \<Rightarrow> (Inl ''manual login timeout'', h @ [EvSelectWait])
      | SelTick \<Rightarrow>
          (let (currentURL, h1) = GetCurrentURL env (h @ [EvSelectWait])
           in if \<not> isOnLoginPage currentURL then harvestSession env h1
              else manualLoop env n h1))"

definition authenticateManually :: "Env \<Rightarrow> AuthConfig \<Rightarrow> history \<Rightarrow> (string + Session) \<times> history" where
  "authenticateManually env config h = manualLoop env 150 h"

definition authenticateWithCookies :: "Env \<Rightarrow> AuthConfig \<Rightarrow> history \<Rightarrow> (string + Session) \<times> history" where
  "authenticateWithCookies env config h =
     (if length (Auth_Cookies config) = 0 then (Inl ''cookies required'', h)
      else case SetCookies env (Auth_Cookies config) h of
             (Some e, h1) \<Rightarrow> (Inl (''set cookies: '' @ e), h1)
           | (None, h1) \<Rightarrow> (let (s, h2) = newSession env (Auth_Cookies config) [] h1 in (Inr s, h2)))"

definition authenticateWithToken :: "Env \<Rightarrow> AuthConfig \<Rightarrow> history \<Rightarrow> (string + Session) \<times> history" where
  "authenticateWithToken env config h =
     (case Auth_Credentials config of
        None \<Rightarrow> (Inl ''token required'', h)
      | Some creds \<Rightarrow>
          (if Cred_Token creds = [] then (Inl ''token required'', h)
           else (let (s, h1) = newSession env [] [(''Authorization'', ''Bearer '' @ Cred_Token creds)] h
                 in (Inr s, h1))))"

definition Authenticate :: "Env \<Rightarrow> AuthConfig \<Rightarrow> history \<Rightarrow> (string + Session) \<times> history" where
  "Authenticate env config h =
     (if Auth_Type config = AuthTypeNone then (let (s, h1) = createEmptySession env h in (Inr s, h1))
      else if Auth_Type config = AuthTypeForm then authenticateWithForm env config h
      else if Auth_Type config = AuthTypeSSO then authenticateWithSSO env config h
      else if Auth_Type config = AuthTypeManual then authenticateManually env config h
      else if Auth_Type config = AuthTypeCookie then authenticateWithCookies env config h
      else if Auth_Type config = AuthTypeToken then authenticateWithToken env config h
      else (Inl (''unsupported auth type: '' @ Auth_Type config), h))"

text \<open>\<open>ValidateSession\<close> reads the clock once; \<open>t.After(u)\<close> is \<open>u < t\<close>. The second
  component is the error result.\<close>

definition ValidateSession :: "Env \<Rightarrow> Session option \<Rightarrow> history \<Rightarrow> bool \<times> string option" where
  "ValidateSession env session h =
     (case session of
        None \<Rightarrow> (False, None)
      | Some s \<Rightarrow> (if Session_ExpiresAt s < sys_Now env h then (False, None) else (True, None)))"


section \<open>planner: language-model clients\<close>

datatype LLMClient = OpenAICompatibleClient LLMConfig | AnthropicClient LLMConfig

text \<open>
  Both constructors write the default endpoint into the configuration they are given (a
  pointer in the source), so the client holds the updated configuration. \<open>NewClient\<close>
  returns Go's pair of a client and an error as a sum.
\<close>

definition NewOpenAICompatibleClient :: "LLMConfig \<Rightarrow> LLMClient" where
  "NewOpenAICompatibleClient config =
     OpenAICompatibleClient
       (if LLM_Endpoint config = [] then
          (if LLM_Provider config = LLMProviderOpenAI
             then config\<lparr>LLM_Endpoint := ''https://api.openai.com/v1''\<rparr>
           else if LLM_Provider config = LLMProviderDeepSeek
             then config\<lparr>LLM_Endpoint := ''https://api.deepseek.com/v1''\<rparr>
           else if LLM_Provider config = LLMProviderOllama
             then config\<lparr>LLM_Endpoint := ''http://localhost:11434/v1''\<rparr>
           else if LLM_Provider config = LLMProviderMoonshot
             then config\<lparr>LLM_Endpoint := ''https://api.moonshot.cn/v1''\<rparr>
           else if LLM_Provider config = LLMProviderQwen
             then config\<lparr>LLM_Endpoint := ''https://dashscope.aliyuncs.com/compatible-mode/v1''\<rparr>
           else config)
        else config)"

definition NewAnthropicClient :: "LLMConfig \<Rightarrow> LLMClient" where
  "NewAnthropicClient config =
     AnthropicClient
       (if LLM_Endpoint config = [] then config\<lparr>LLM_Endpoint := ''https://api.anthropic.com/v1''\<rparr>
        else config)"

definition NewClient :: "LLMConfig \<Rightarrow> string + LLMClient" where
  "NewClient config =
     (if LLM_Provider config = LLMProviderAnthropic then Inr (NewAnthropicClient config)
      else Inr (NewOpenAICompatibleClient config))"

definition clientConfig :: "LLMClient \<Rightarrow> LLMConfig" where
  "clientConfig c = (case c of OpenAICompatibleClient cfg \<Rightarrow> cfg | AnthropicClient cfg \<Rightarrow> cfg)"

text \<open>
  \<open>http.Header.Set\<close>: the entry for the key is replaced. Go stores the key in its
  canonical spelling (\<open>x-api-key\<close> is sent as \<open>X-Api-Key\<close>); header names are
  case-insensitive, and the model keeps the key as the source writes it.
\<close>

definition Header_Set :: "string \<Rightarrow> string \<Rightarrow> (string \<times> string) list \<Rightarrow> (string \<times> string) list" where
  "Header_Set k v hdr = filter (\<lambda>kv. fst kv \<noteq> k) hdr @ [(k, v)]"

definition Header_Get :: "string \<Rightarrow> (string \<times> string) list \<Rightarrow> string option" where
  "Header_Get k hdr = map_of hdr k"

text \<open>
  \<open>Chat\<close> of the two clients. The request each one builds (body map, URL, headers) is
  given first, then the call. \<open>json.Marshal\<close> of the body map cannot fail on these values.
  \<open>sys_NewRequestErr\<close> is the error of \<open>http.NewRequestWithContext\<close> for the URL, if any.
\<close>

definition OpenAI_request :: "LLMConfig \<Rightarrow> Message list \<Rightarrow> HttpRequest" where
  "OpenAI_request config messages =
     (let reqBody = \<lparr>Body_model = LLM_Model config, Body_messages = messages,
                      Body_temperature =
                        (case LLM_Options config of None \<Rightarrow> None
                         | Some opts \<Rightarrow> if 0 < Opt_Temperature opts then Some (Opt_Temperature opts) else None),
                      Body_max_tokens =
                        (case LLM_Options config of None \<Rightarrow> None
                         | Some opts \<Rightarrow> if 0 < Opt_MaxTokens opts then Some (Opt_MaxTokens opts) else None)\<rparr>;
          hdr0 = Header_Set ''Content-Type'' ''application/json'' [];
          hdr = (if LLM_APIKey config \<noteq> []
                 then Header_Set ''Authorization'' (''Bearer '' @ LLM_APIKey config) hdr0
                 else hdr0)
      in \<lparr>Req_Method = ''POST'', Req_URL = LLM_Endpoint config @ ''/chat/completions'',
          Req_Header = hdr, Req_Body = reqBody\<rparr>)"

definition OpenAI_Chat :: "Env \<Rightarrow> LLMConfig \<Rightarrow> Message list \<Rightarrow> history \<Rightarrow> (string + Response) \<times> history" where
  "OpenAI_Chat env config messages h =
     (case sys_NewRequestErr env (LLM_Endpoint config @ ''/chat/completions'') of
        Some e \<Rightarrow> (Inl (''create request: '' @ e), h)
      | None \<Rightarrow>
          (let req = OpenAI_request config messages;
               h1 = h @ [EvHttpDo req]
           in case sys_HttpDo env h req of
                Inl e \<Rightarrow> (Inl (''send request: '' @ e), h1)
              | Inr resp \<Rightarrow>
                  (if HResp_StatusCode resp \<noteq> 200
                   then (Inl (''API error: '' @ HResp_Status resp @ '' - '' @ HResp_Body resp), h1)
                   else case json_DecodeOpenAI env (HResp_Body resp) of
                          Inl e \<Rightarrow> (Inl (''decode response: '' @ e), h1)
                        | Inr result \<Rightarrow>
                            (case OA_Choices result of
                               [] \<Rightarrow> (Inl ''no choices in response'', h1)
                             | choice # _ \<Rightarrow>
                                 (Inr \<lparr>Resp_Content = Choice_Content choice,
                                       Resp_FinishReason = Choice_FinishReason choice,
                                       Resp_Usage = Some (OA_Usage result)\<rparr>, h1)))))"

definition Anthropic_request :: "LLMConfig \<Rightarrow> Message list \<Rightarrow> HttpRequest" where
  "Anthropic_request config messages =
     (let reqBody = \<lparr>Body_model = LLM_Model config, Body_messages = messages,
                      Body_temperature =
                        (case LLM_Options config of None \<Rightarrow> None
                         | Some opts \<Rightarrow> if 0 < Opt_Temperature opts then Some (Opt_Temperature opts) else None),
                      Body_max_tokens =
                        (case LLM_Options config of None \<Rightarrow> Some 4096
                         | Some opts \<Rightarrow> if 0 < Opt_MaxTokens opts then Some (Opt_MaxTokens opts) else Some 4096)\<rparr>;
          hdr = Header_Set ''anthropic-version'' ''2023-06-01''
                  (Header_Set ''x-api-key'' (LLM_APIKey config)
                     (Header_Set ''Content-Type'' ''application/json'' []))
      in \<lparr>Req_Method = ''POST'', Req_URL = LLM_Endpoint config @ ''/messages'',
          Req_Header = hdr, Req_Body = reqBody\<rparr>)"

definition Anthropic_Chat :: "Env \<Rightarrow> LLMConfig \<Rightarrow> Message list \<Rightarrow> history \<Rightarrow> (string + Response) \<times> history" where
  "Anthropic_Chat env config messages h =
     (case sys_NewRequestErr env (LLM_Endpoint config @ ''/messages'') of
        Some e \<Rightarrow> (Inl (''create request: '' @ e), h)
      | None \<Rightarrow>
          (let req = Anthropic_request config messages;
               h1 = h @ [EvHttpDo req]
           in case sys_HttpDo env h req of
                Inl e \<Rightarrow> (Inl (''send request: '' @ e), h1)
              | Inr resp \<Rightarrow>
                  (if HResp_StatusCode resp \<noteq> 200
                   then (Inl (''API error: '' @ HResp_Status resp @ '' - '' @ HResp_Body resp), h1)
                   else case json_DecodeAnthropic env (HResp_Body resp) of
                          Inl e \<Rightarrow> (Inl (''decode response: '' @ e), h1)
                        | Inr result \<Rightarrow>
                            (case An_Content result of
                               [] \<Rightarrow> (Inl ''no content in response'', h1)
                             | txt # _ \<Rightarrow>
                                 (Inr \<lparr>Resp_Content = txt,
                                       Resp_FinishReason = An_StopReason result,
                                       Resp_Usage = Some \<lparr>Usage_PromptTokens = An_InputTokens result,
                                                           Usage_CompletionTokens = An_OutputTokens result,
                                                           Usage_TotalTokens = An_InputTokens result + An_OutputTokens result\<rparr>\<rparr>,
                                  h1)))))"

text \<open>The interface call \<open>llmClient.Chat\<close> dispatches on the dynamic type of the client.\<close>

definition Chat :: "Env \<Rightarrow> LLMClient \<Rightarrow> Message list \<Rightarrow> history \<Rightarrow> (string + Response) \<times> history" where
  "Chat env client messages h =
     (case client of
        OpenAICompatibleClient config \<Rightarrow> OpenAI_Chat env config messages h
      | AnthropicClient config \<Rightarrow> Anthropic_Chat env config messages h)"

section \<open>planner: AIPlanner\<close>

text \<open>
  \<open>fmt.Sprintf\<close> for the verbs the prompts use; the arguments are already rendered.
  \<open>itoa\<close> renders \<open>%d\<close>.
\<close>

fun Sprintf :: "string \<Rightarrow> string list \<Rightarrow> string" where
  "Sprintf [] args = []"
| "Sprintf [c] args = [c]"
| "Sprintf (c # d # cs) args =
     (if c = CHR 0x25 \<and> (d = CHR ''s'' \<or> d = CHR ''d'' \<or> d = CHR ''v'')
      then (case args of
              [] \<Rightarrow> [CHR 0x25, CHR 0x21, d] @ ''(MISSING)'' @ Sprintf cs []
            | a # as \<Rightarrow> a @ Sprintf cs as)
      else c # Sprintf (d # cs) args)"

function utoa :: "nat \<Rightarrow> string" where
  "utoa n = (if n < 10 then [char_of (48 + n)] else utoa (n div 10) @ [char_of (48 + n mod 10)])"
  by pat_completeness auto
termination
  by (relation "measure id") auto

declare utoa.simps [simp del]

definition itoa :: "int \<Rightarrow> string" where
  "itoa i = (if i < 0 then CHR ''-'' # utoa (nat (- i)) else utoa (nat i))"

text \<open>The constant \<open>systemPrompt\<close>, as the UTF-8 bytes of its raw string literal.\<close>

definition systemPrompt :: string where
  "systemPrompt = map char_of
    ([228, 189, 160, 230, 152, 175, 228, 184, 128, 228, 184, 170, 230, 181, 143, 232, 167, 136,
      229, 153, 168, 232, 135, 170, 229, 138, 168, 229, 140, 150, 228, 184, 147, 229, 174, 182,
      239, 188, 140, 232, 180, 159, 232, 180, 163, 229, 176, 134, 231, 148, 168, 230, 136, 183,
      231, 154, 132, 232, 135, 170, 231, 132, 182, 232, 175, 173, 232, 168, 128, 228, 187, 187,
      229, 138, 161, 230, 143, 143, 232, 191, 176, 232, 189, 172, 230, 141, 162, 228, 184, 186,
      229, 143, 175, 230, 137, 167, 232, 161, 140, 231, 154, 132, 230, 181, 143, 232, 167, 136,
      229, 153, 168, 230, 147, 141, 228, 189, 156, 230, 173, 165, 233, 170, 164, 227, 128, 130,
      10, 10, 228, 189, 160, 231, 154, 132, 232, 190, 147, 229, 135, 186, 229, 191, 133, 233,
      161, 187, 230, 152, 175, 230, 156, 137, 230, 149, 136, 231, 154, 132, 32, 74, 83, 79, 78,
      32, 230, 160, 188, 229, 188, 143, 239, 188, 140, 229, 140, 133, 229, 144, 171, 228, 187,
      165, 228, 184, 139, 229, 173, 151, 230, 174, 181, 239, 188, 154, 10, 45, 32, 116, 97, 115,
      107, 95, 105, 100, 58, 32, 228, 187, 187, 229, 138, 161, 229, 148, 175, 228, 184, 128, 230,
      160, 135, 232, 175, 134, 10, 45, 32, 100, 101, 115, 99, 114, 105, 112, 116, 105, 111, 110,
      58, 32, 228, 187, 187, 229, 138, 161, 230, 143, 143, 232, 191, 176, 10, 45, 32, 115, 116,
      101, 112, 115, 58, 32, 230, 147, 141, 228, 189, 156, 230, 173, 165, 233, 170, 164, 230,
      149, 176, 231, 187, 132, 10, 10, 230, 175, 143, 228, 184, 170, 230, 173, 165, 233, 170,
      164, 229, 140, 133, 229, 144, 171, 239, 188, 154, 10, 45, 32, 111, 114, 100, 101, 114, 58,
      32, 230, 173, 165, 233, 170, 164, 229, 186, 143, 229, 143, 183, 10, 45, 32, 97, 99, 116,
      105, 111, 110, 58, 32, 230, 147, 141, 228, 189, 156, 231, 177, 187, 229, 158, 139, 239,
      188, 136, 110, 97, 118, 105, 103, 97, 116, 101, 47, 99, 108, 105, 99, 107, 47, 102, 105,
      108, 108, 47, 104, 111, 118, 101, 114, 47, 115, 99, 114, 101, 101, 110, 115, 104, 111, 116,
      47, 119, 97, 105, 116, 239, 188, 137, 10, 45, 32, 116, 97, 114, 103, 101, 116, 58, 32, 231,
      155, 174, 230, 160, 135, 239, 188, 136, 85, 82, 76, 32, 230, 136, 150, 32, 67, 83, 83, 32,
      233, 128, 137, 230, 139, 169, 229, 153, 168, 239, 188, 137, 10, 45, 32, 118, 97, 108, 117,
      101, 58, 32, 232, 190, 147, 229, 133, 165, 229, 128, 188, 239, 188, 136, 229, 143, 175,
      233, 128, 137, 239, 188, 137, 10, 45, 32, 119, 97, 105, 116, 95, 102, 111, 114, 58, 32,
      231, 173, 137, 229, 190, 133, 230, 157, 161, 228, 187, 182, 239, 188, 136, 229, 143, 175,
      233, 128, 137, 239, 188, 137, 10, 45, 32, 115, 99, 114, 101, 101, 110, 115, 104, 111, 116,
      58, 32, 230, 152, 175, 229, 144, 166, 230, 136, 170, 229, 155, 190, 10, 45, 32, 100, 101,
      115, 99, 114, 105, 112, 116, 105, 111, 110, 58, 32, 230, 173, 165, 233, 170, 164, 230, 143,
      143, 232, 191, 176, 239, 188, 136, 231, 148, 168, 230, 136, 183, 229, 143, 139, 229, 165,
      189, 239, 188, 137, 10, 10, 231, 161, 174, 228, 191, 157, 231, 148, 159, 230, 136, 144,
      231, 154, 132, 233, 128, 137, 230, 139, 169, 229, 153, 168, 230, 152, 175, 231, 168, 179,
      229, 174, 154, 229, 143, 175, 233, 157, 160, 231, 154, 132, 239, 188, 140, 228, 188, 152,
      229, 133, 136, 228, 189, 191, 231, 148, 168, 32, 105, 100, 227, 128, 129, 110, 97, 109,
      101, 32, 229, 177, 158, 230, 128, 167, 227, 128, 130] :: nat list)"

text \<open>The format string of \<open>RefineStep\<close> (six \<open>%s\<close> verbs).\<close>

definition refineTemplate :: string where
  "refineTemplate = map char_of
    ([229, 189, 147, 229, 137, 141, 230, 173, 165, 233, 170, 164, 230, 137, 167, 232, 161, 140,
      229, 164, 177, 232, 180, 165, 239, 188, 140, 232, 175, 183, 230, 160, 185, 230, 141, 174,
      233, 161, 181, 233, 157, 162, 231, 138, 182, 230, 128, 129, 228, 188, 152, 229, 140, 150,
      233, 128, 137, 230, 139, 169, 229, 153, 168, 227, 128, 130, 10, 10, 229, 142, 159, 230,
      173, 165, 233, 170, 164, 58, 10, 45, 32, 230, 147, 141, 228, 189, 156, 58, 32, 37, 115, 10,
      45, 32, 231, 155, 174, 230, 160, 135, 58, 32, 37, 115, 10, 45, 32, 230, 143, 143, 232, 191,
      176, 58, 32, 37, 115, 10, 10, 229, 189, 147, 229, 137, 141, 233, 161, 181, 233, 157, 162,
      32, 85, 82, 76, 58, 32, 37, 115, 10, 233, 161, 181, 233, 157, 162, 230, 160, 135, 233, 162,
      152, 58, 32, 37, 115, 10, 10, 229, 143, 175, 228, 186, 164, 228, 186, 146, 229, 133, 131,
      231, 180, 160, 58, 10, 37, 115, 10, 10, 232, 175, 183, 232, 190, 147, 229, 135, 186, 228,
      188, 152, 229, 140, 150, 229, 144, 142, 231, 154, 132, 230, 173, 165, 233, 170, 164, 32,
      74, 83, 79, 78, 227, 128, 130] :: nat list)"

text \<open>The format strings of \<open>buildTaskParsePrompt\<close>: the page block and the prompt.\<close>

definition pageInfoTemplate :: string where
  "pageInfoTemplate = map char_of
    ([10, 229, 189, 147, 229, 137, 141, 233, 161, 181, 233, 157, 162, 32, 85, 82, 76, 58, 32, 37,
      115, 10, 233, 161, 181, 233, 157, 162, 230, 160, 135, 233, 162, 152, 58, 32, 37, 115, 10,
      10, 229, 143, 175, 228, 186, 164, 228, 186, 146, 229, 133, 131, 231, 180, 160, 58, 10, 37,
      115] :: nat list)"

definition taskParseTemplate :: string where
  "taskParseTemplate = map char_of
    ([35, 35, 32, 231, 148, 168, 230, 136, 183, 228, 187, 187, 229, 138, 161, 10, 37, 115, 10,
      10, 35, 35, 32, 231, 155, 174, 230, 160, 135, 231, 189, 145, 231, 171, 153, 10, 37, 115,
      10, 37, 115, 10, 10, 35, 35, 32, 232, 190, 147, 229, 135, 186, 232, 166, 129, 230, 177,
      130, 10, 231, 148, 159, 230, 136, 144, 32, 74, 83, 79, 78, 32, 230, 160, 188, 229, 188,
      143, 231, 154, 132, 230, 147, 141, 228, 189, 156, 230, 173, 165, 233, 170, 164, 229, 136,
      151, 232, 161, 168, 239, 188, 140, 230, 160, 188, 229, 188, 143, 229, 166, 130, 228, 184,
      139, 239, 188, 154, 10, 123, 10, 32, 32, 34, 116, 97, 115, 107, 95, 105, 100, 34, 58, 32,
      34, 117, 117, 105, 100, 34, 44, 10, 32, 32, 34, 100, 101, 115, 99, 114, 105, 112, 116, 105,
      111, 110, 34, 58, 32, 34, 228, 187, 187, 229, 138, 161, 230, 128, 187, 228, 189, 147, 230,
      143, 143, 232, 191, 176, 34, 44, 10, 32, 32, 34, 115, 116, 101, 112, 115, 34, 58, 32, 91,
      10, 32, 32, 32, 32, 123, 10, 32, 32, 32, 32, 32, 32, 34, 111, 114, 100, 101, 114, 34, 58,
      32, 49, 44, 10, 32, 32, 32, 32, 32, 32, 34, 97, 99, 116, 105, 111, 110, 34, 58, 32, 34,
      110, 97, 118, 105, 103, 97, 116, 101, 124, 99, 108, 105, 99, 107, 124, 102, 105, 108, 108,
      124, 104, 111, 118, 101, 114, 124, 115, 99, 114, 101, 101, 110, 115, 104, 111, 116, 124,
      119, 97, 105, 116, 34, 44, 10, 32, 32, 32, 32, 32, 32, 34, 116, 97, 114, 103, 101, 116, 34,
      58, 32, 34, 67, 83, 83, 233, 128, 137, 230, 139, 169, 229, 153, 168, 230, 136, 150, 85, 82,
      76, 34, 44, 10, 32, 32, 32, 32, 32, 32, 34, 118, 97, 108, 117, 101, 34, 58, 32, 34, 232,
      190, 147, 229, 133, 165, 229, 128, 188, 239, 188, 136, 229, 166, 130, 233, 128, 130, 231,
      148, 168, 239, 188, 137, 34, 44, 10, 32, 32, 32, 32, 32, 32, 34, 119, 97, 105, 116, 95,
      102, 111, 114, 34, 58, 32, 34, 231, 173, 137, 229, 190, 133, 230, 157, 161, 228, 187, 182,
      239, 188, 136, 229, 166, 130, 233, 128, 130, 231, 148, 168, 239, 188, 137, 34, 44, 10, 32,
      32, 32, 32, 32, 32, 34, 115, 99, 114, 101, 101, 110, 115, 104, 111, 116, 34, 58, 32, 116,
      114, 117, 101, 44, 10, 32, 32, 32, 32, 32, 32, 34, 100, 101, 115, 99, 114, 105, 112, 116,
      105, 111, 110, 34, 58, 32, 34, 231, 148, 168, 230, 136, 183, 229, 143, 139, 229, 165, 189,
      231, 154, 132, 230, 173, 165, 233, 170, 164, 232, 175, 180, 230, 152, 142, 34, 10, 32, 32,
      32, 32, 125, 10, 32, 32, 93, 10, 125, 10, 10, 35, 35, 32, 230, 179, 168, 230, 132, 143,
      228, 186, 139, 233, 161, 185, 10, 49, 46, 32, 228, 188, 152, 229, 133, 136, 228, 189, 191,
      231, 148, 168, 231, 168, 179, 229, 174, 154, 231, 154, 132, 233, 128, 137, 230, 139, 169,
      229, 153, 168, 239, 188, 136, 105, 100, 32, 62, 32, 110, 97, 109, 101, 32, 62, 32, 99, 108,
      97, 115, 115, 32, 62, 32, 120, 112, 97, 116, 104, 239, 188, 137, 10, 50, 46, 32, 230, 175,
      143, 228, 184, 170, 229, 133, 179, 233, 148, 174, 230, 147, 141, 228, 189, 156, 229, 144,
      142, 230, 183, 187, 229, 138, 160, 230, 136, 170, 229, 155, 190, 239, 188, 136, 115, 99,
      114, 101, 101, 110, 115, 104, 111, 116, 58, 32, 116, 114, 117, 101, 239, 188, 137, 10, 51,
      46, 32, 230, 173, 165, 233, 170, 164, 232, 175, 180, 230, 152, 142, 232, 166, 129, 230,
      184, 133, 230, 153, 176, 230, 152, 147, 230, 135, 130, 239, 188, 140, 233, 157, 162, 229,
      144, 145, 230, 153, 174, 233, 128, 154, 231, 148, 168, 230, 136, 183, 10, 52, 46, 32, 229,
      140, 133, 229, 144, 171, 229, 191, 133, 232, 166, 129, 231, 154, 132, 231, 173, 137, 229,
      190, 133, 230, 173, 165, 233, 170, 164, 239, 188, 140, 231, 161, 174, 228, 191, 157, 233,
      161, 181, 233, 157, 162, 229, 138, 160, 232, 189, 189, 229, 174, 140, 230, 136, 144, 10,
      10, 232, 175, 183, 232, 190, 147, 229, 135, 186, 32, 74, 83, 79, 78, 239, 188, 154] :: nat list)"

text \<open>The texts of \<open>formatElements\<close>.\<close>

definition noElementsText :: string where
  "noElementsText = map char_of
    ([239, 188, 136, 230, 151, 160, 229, 143, 175, 228, 186, 164, 228, 186, 146, 229, 133, 131,
      231, 180, 160, 239, 188, 137] :: nat list)"

definition moreElementsTemplate :: string where
  "moreElementsTemplate = map char_of
    ([46, 46, 46, 32, 232, 191, 152, 230, 156, 137, 32, 37, 100, 32, 228, 184, 170, 229, 133,
      131, 231, 180, 160, 10] :: nat list)"

definition formatElements :: "Element list \<Rightarrow> string" where
  "formatElements elements =
     (if length elements = 0 then noElementsText
      else concat (map (\<lambda>el. Sprintf (''- <%s> %s'' @ [CHR 0x0A]) [El_TagName el, El_Text el])
                       (take 20 elements))
           @ (if 20 < length elements
              then Sprintf moreElementsTemplate [itoa (int (length elements) - 20)]
              else []))"

definition buildTaskParsePrompt :: "PlanRequest \<Rightarrow> string" where
  "buildTaskParsePrompt req =
     (let pageInfo = (case PReq_PageSnapshot req of
                        None \<Rightarrow> []
                      | Some snap \<Rightarrow> Sprintf pageInfoTemplate
                                       [Snap_URL snap, Snap_Title snap, formatElements (Snap_Elements snap)])
      in Sprintf taskParseTemplate [PReq_UserInput req, PReq_TargetURL req, pageInfo])"

text \<open>
  \<open>extractJSON\<close>: the loop over the reply keeps the byte index, the index of the first
  opening brace (\<open>-1\<close> while none was seen) and the depth; it stops at the first closing brace
  that brings the depth to zero. The loop ranges over runes, but braces are single bytes that
  never occur inside a multi-byte sequence, so the byte loop visits them at the same indices.
\<close>

fun scanJSON :: "string \<Rightarrow> int \<Rightarrow> int \<Rightarrow> int \<Rightarrow> int \<times> int" where
  "scanJSON [] i start depth = (start, -1)"
| "scanJSON (c # cs) i start depth =
     (if c = CHR 0x7B then scanJSON cs (i + 1) (if start = -1 then i else start) (depth + 1)
      else if c = CHR 0x7D then
        (if depth - 1 = 0 then (start, i + 1) else scanJSON cs (i + 1) start (depth - 1))
      else scanJSON cs (i + 1) start depth)"

definition extractJSON :: "string \<Rightarrow> string" where
  "extractJSON content =
     (let (start, end) = scanJSON content 0 (-1) 0
      in if start \<noteq> -1 \<and> end \<noteq> -1 then take (nat (end - start)) (drop (nat start) content)
         else content)"

text \<open>
  \<open>json.Unmarshal(data, &v)\<close> decodes into an existing value and may have written part of it
  when it fails, so the oracle takes the value and returns the error with the value left
  behind. \<open>ParseTask\<close> decodes the extracted text into the same variable as the first attempt.
\<close>

definition ParseTask :: "Env \<Rightarrow> LLMClient \<Rightarrow> PlanRequest \<Rightarrow> history \<Rightarrow> (string + TaskPlan) \<times> history" where
  "ParseTask env client req h =
     (let prompt = buildTaskParsePrompt req;
          messages = [\<lparr>Msg_Role = ''system'', Msg_Content = systemPrompt\<rparr>,
                      \<lparr>Msg_Role = ''user'', Msg_Content = prompt\<rparr>]
      in case Chat env client messages (h @ [EvParseTask req]) of
           (Inl e, h1) \<Rightarrow> (Inl (''llm chat: '' @ e), h1)
         | (Inr resp, h1) \<Rightarrow>
             (case json_UnmarshalPlan env (Resp_Content resp) zero_TaskPlan of
                (None, plan) \<Rightarrow> (Inr plan, h1)
              | (Some e1, plan1) \<Rightarrow>
                  (case json_UnmarshalPlan env (extractJSON (Resp_Content resp)) plan1 of
                     (None, plan) \<Rightarrow> (Inr plan, h1)
                   | (Some e2, plan2) \<Rightarrow> (Inl (''parse plan: '' @ e2), h1))))"

definition RefineStep :: "Env \<Rightarrow> LLMClient \<Rightarrow> ActionStep \<Rightarrow> PageSnapshot \<Rightarrow> history \<Rightarrow> (string + ActionStep) \<times> history" where
  "RefineStep env client step snapshot h =
     (let prompt = Sprintf refineTemplate
                     [Step_Action step, Step_Target step, Step_Description step,
                      Snap_URL snapshot, Snap_Title snapshot, formatElements (Snap_Elements snapshot)];
          messages = [\<lparr>Msg_Role = ''system'', Msg_Content = systemPrompt\<rparr>,
                      \<lparr>Msg_Role = ''user'', Msg_Content = prompt\<rparr>]
      in case Chat env client messages (h @ [EvRefineStep step snapshot]) of
           (Inl e, h1) \<Rightarrow> (Inl (''llm chat: '' @ e), h1)
         | (Inr resp, h1) \<Rightarrow>
             (case json_UnmarshalStep env (extractJSON (Resp_Content resp)) zero_ActionStep of
                (Some e, refined) \<Rightarrow> (Inl (''parse refined step: '' @ e), h1)
              | (None, refined) \<Rightarrow> (Inr refined, h1)))"


section \<open>storage.MemoryTaskStore\<close>

text \<open>
  The store maps a task id to a pointer, and the handler, the store and the orchestrator
  share the task object behind it. The state therefore has a heap of task objects
  (\<open>st_objs\<close>, addressed by naturals; nil is not an address), the map of the store
  (\<open>st_tasks\<close>) and the call history.
\<close>

record State =
  st_objs :: "nat \<Rightarrow> Task"
  st_tasks :: "string \<Rightarrow> nat option"
  st_hist :: history

definition ErrNotFound :: string where "ErrNotFound = ''resource not found''"

definition setTask :: "nat \<Rightarrow> (Task \<Rightarrow> Task) \<Rightarrow> State \<Rightarrow> State" where
  "setTask p f st = st\<lparr>st_objs := (st_objs st)(p := f (st_objs st p))\<rparr>"

definition now :: "Env \<Rightarrow> State \<Rightarrow> gotime" where
  "now env st = sys_Now env (st_hist st)"

definition Store_Create :: "nat \<Rightarrow> State \<Rightarrow> State" where
  "Store_Create p st = st\<lparr>st_tasks := (st_tasks st)(Task_ID (st_objs st p) \<mapsto> p)\<rparr>"

definition Store_Update :: "nat \<Rightarrow> State \<Rightarrow> string option \<times> State" where
  "Store_Update p st =
     (case st_tasks st (Task_ID (st_objs st p)) of
        None \<Rightarrow> (Some ErrNotFound, st)
      | Some q \<Rightarrow> (None, st\<lparr>st_tasks := (st_tasks st)(Task_ID (st_objs st p) \<mapsto> p)\<rparr>))"

definition UpdateStatus :: "string \<Rightarrow> string \<Rightarrow> State \<Rightarrow> string option \<times> State" where
  "UpdateStatus tid status st =
     (case st_tasks st tid of
        None \<Rightarrow> (Some ErrNotFound, st)
      | Some p \<Rightarrow> (None, setTask p (\<lambda>t. t\<lparr>Task_Status := status\<rparr>) st))"

text \<open>The cancel endpoint: the HTTP status code it answers with, and the state.\<close>

definition CancelTask :: "string \<Rightarrow> State \<Rightarrow> int \<times> State" where
  "CancelTask taskID st =
     (case UpdateStatus taskID TaskStatusCancelled st of
        (Some e, st1) \<Rightarrow> (500, st1)
      | (None, st1) \<Rightarrow> (200, st1))"

section \<open>orchestrator.Orchestrator\<close>

text \<open>
  \<open>executeStep\<close> returns the step result, the screenshot if one was taken, and the error.
  \<open>dispatchAction\<close> is its switch statement: the error of the driver operation for the
  action kind, and nil for a kind without a case.
\<close>

definition dispatchAction :: "Env \<Rightarrow> ActionStep \<Rightarrow> history \<Rightarrow> string option \<times> history" where
  "dispatchAction env step h =
     (if Step_Action step = ActionNavigate then Navigate env (Step_Target step) h
      else if Step_Action step = ActionClick then Click env (Step_Target step) h
      else if Step_Action step = ActionFill then Fill env (Step_Target step) (Step_Value step) h
      else if Step_Action step = ActionHover then Hover env (Step_Target step) h
      else if Step_Action step = ActionSelect then Select env (Step_Target step) (Step_Value step) h
      else if Step_Action step = ActionWait then
        (if Step_WaitFor step \<noteq> [] then WaitForSelector env (Step_WaitFor step) (10 * Second) h
         else (None, Sleep (2 * Second) h))
      else (None, h))"

definition executeStep :: "Env \<Rightarrow> ActionStep \<Rightarrow> history \<Rightarrow> (StepResult \<times> Screenshot option \<times> string option) \<times> history" where
  "executeStep env step h =
     (case dispatchAction env step h of
        (Some e, h1) \<Rightarrow> ((\<lparr>Res_Success = False, Res_Error = e, Res_Screenshot = []\<rparr>, None, Some e), h1)
      | (None, h1) \<Rightarrow>
          (let h2 = Sleep (500 * Millisecond) h1
           in if Step_Screenshot step then
                (case TakeScreenshot env \<lparr>Shot_FullPage = False, Shot_Quality = 90, Shot_Type = ''png''\<rparr> h2 of
                   (Inr imgData, h3) \<Rightarrow>
                     (let (sid, h4) = NewUUID env h3
                      in ((\<lparr>Res_Success = True, Res_Error = [], Res_Screenshot = []\<rparr>,
                           Some \<lparr>Scr_ID = sid, Scr_StepOrder = Step_Order step, Scr_CreatedAt = sys_Now env h4\<rparr>,
                           None), h4))
                 | (Inl e, h3) \<Rightarrow>
                     ((\<lparr>Res_Success = True, Res_Error = [], Res_Screenshot = []\<rparr>, None, None), h3))
              else ((\<lparr>Res_Success = True, Res_Error = [], Res_Screenshot = []\<rparr>, None, None), h2)))"

text \<open>
  The body of the step loop of \<open>ExecuteTask\<close>. The loop variables are the current
  snapshot, the step results, the screenshots and the history. The branch of a failed
  refinement is the \<open>continue\<close> of the source: it skips the rest of the body.
\<close>

type_synonym loopvars = "PageSnapshot \<times> StepResult list \<times> Screenshot list \<times> history"

definition recordStep :: "Env \<Rightarrow> StepResult \<Rightarrow> Screenshot option \<Rightarrow> StepResult list \<Rightarrow> Screenshot list \<Rightarrow> history \<Rightarrow> loopvars" where
  "recordStep env result screenshot stepResults screenshots h =
     (let (snapshot, h1) = TakeSnapshot env h
      in (snapshot, stepResults @ [result],
          (case screenshot of None \<Rightarrow> screenshots | Some sc \<Rightarrow> screenshots @ [sc]), h1))"

definition stepBody :: "Env \<Rightarrow> LLMClient \<Rightarrow> ActionStep \<Rightarrow> loopvars \<Rightarrow> loopvars" where
  "stepBody env client step vars =
     (case vars of (snapshot, stepResults, screenshots, h) \<Rightarrow>
        (case executeStep env step h of
           ((result, screenshot, Some e), h1) \<Rightarrow>
             (case RefineStep env client step snapshot h1 of
                (Inl refineErr, h2) \<Rightarrow>
                  (snapshot,
                   stepResults @ [\<lparr>Res_Success = False, Res_Error = e, Res_Screenshot = []\<rparr>],
                   screenshots, h2)
              | (Inr refined, h2) \<Rightarrow>
                  (case executeStep env refined h2 of
                     ((result2, screenshot2, err2), h3) \<Rightarrow>
                       recordStep env result2 screenshot2 stepResults screenshots h3))
         | ((result, screenshot, None), h1) \<Rightarrow>
             recordStep env result screenshot stepResults screenshots h1))"

fun stepLoop :: "Env \<Rightarrow> LLMClient \<Rightarrow> ActionStep list \<Rightarrow> loopvars \<Rightarrow> loopvars" where
  "stepLoop env client [] vars = vars"
| "stepLoop env client (step # steps) vars = stepLoop env client steps (stepBody env client step vars)"

text \<open>Document rendering is a collaborator: \<open>doc_Generate\<close> is the content or the error.\<close>

fun generateDocuments :: "Env \<Rightarrow> Task \<Rightarrow> TaskPlan \<Rightarrow> StepResult list \<Rightarrow> string list \<Rightarrow> DocumentInfo list \<Rightarrow> history \<Rightarrow> DocumentInfo list \<times> history" where
  "generateDocuments env task plan results [] docs h = (docs, h)"
| "generateDocuments env task plan results (format # formats) docs h =
     (if format = DocFormatMarkdown \<or> format = DocFormatHTML then
        (case doc_Generate env format task plan results of
           Inl e \<Rightarrow> generateDocuments env task plan results formats docs (h @ [EvGenerate format])
         | Inr content \<Rightarrow>
             (let (did, h1) = NewUUID env (h @ [EvGenerate format])
              in generateDocuments env task plan results formats
                   (docs @ [\<lparr>Doc_ID = did, Doc_Format = format, Doc_Content = content,
                              Doc_Size = int (length content), Doc_CreatedAt = sys_Now env h1\<rparr>]) h1))
      else generateDocuments env task plan results formats docs h)"

definition convertStepResults :: "StepResult list \<Rightarrow> gotime \<Rightarrow> DomainStepResult list" where
  "convertStepResults results t =
     map (\<lambda>(i, r). \<lparr>DRes_Order = int i + 1, DRes_Success = Res_Success r, DRes_Error = Res_Error r,
                     DRes_ExecutedAt = t\<rparr>) (enumerate 0 results)"

definition failTask :: "Env \<Rightarrow> nat \<Rightarrow> string \<Rightarrow> State \<Rightarrow> string option \<times> State" where
  "failTask env p err st =
     (let st1 = setTask p (\<lambda>t. t\<lparr>Task_Status := TaskStatusFailed, Task_ErrorMessage := err,
                                  Task_UpdatedAt := now env st\<rparr>) st
      in (Some err, snd (Store_Update p st1)))"

text \<open>Lines 73 to 104: authentication, or plain navigation. The error is already wrapped.\<close>

definition openTarget :: "Env \<Rightarrow> Task \<Rightarrow> history \<Rightarrow> string option \<times> history" where
  "openTarget env task h =
     (case (case Task_Auth task of None \<Rightarrow> None
            | Some auth \<Rightarrow> if Auth_Type auth \<noteq> AuthTypeNone then Some auth else None) of
        Some auth \<Rightarrow>
          (case Navigate env (Task_TargetURL task) h of
             (Some e, h1) \<Rightarrow> (Some (''navigate for auth: '' @ e), h1)
           | (None, h1) \<Rightarrow>
               (case Authenticate env auth h1 of
                  (Inl e, h2) \<Rightarrow> (Some (''authenticate: '' @ e), h2)
                | (Inr session, h2) \<Rightarrow>
                    (case (if 0 < length (Session_Cookies session)
                           then SetCookies env (Session_Cookies session) h2 else (None, h2)) of
                       (Some e, h3) \<Rightarrow> (Some (''set cookies: '' @ e), h3)
                     | (None, h3) \<Rightarrow>
                         (case Navigate env (Task_TargetURL task) h3 of
                            (Some e, h4) \<Rightarrow> (Some (''navigate after auth: '' @ e), h4)
                          | (None, h4) \<Rightarrow> (None, h4)))))
      | None \<Rightarrow>
          (case Navigate env (Task_TargetURL task) h of
             (Some e, h1) \<Rightarrow> (Some (''navigate: '' @ e), h1)
           | (None, h1) \<Rightarrow> (None, h1)))"

text \<open>Lines 131 to 187: the step loop, the documents, and the completed task.\<close>

definition runSteps :: "Env \<Rightarrow> nat \<Rightarrow> LLMClient \<Rightarrow> gotime \<Rightarrow> TaskPlan \<Rightarrow> PageSnapshot \<Rightarrow> State \<Rightarrow> string option \<times> State" where
  "runSteps env p client startTime plan snapshot st =
     (case stepLoop env client (Plan_Steps plan) (snapshot, [], [], st_hist st) of
        (snapshot1, stepResults, screenshots, h1) \<Rightarrow>
          (case generateDocuments env (st_objs st p) plan stepResults
                  (Out_Formats (Task_Output (st_objs st p))) [] h1 of
             (docs, h2) \<Rightarrow>
               (let st1 = st\<lparr>st_hist := h2\<rparr>;
                    st2 = setTask p (\<lambda>t. t\<lparr>Task_Status := TaskStatusCompleted,
                                             Task_UpdatedAt := now env st1,
                                             Task_CompletedAt := Some (now env st1),
                                             Task_Result := Some \<lparr>TR_Steps = convertStepResults stepResults (now env st1),
                                                                   TR_Screenshots = screenshots,
                                                                   TR_Documents = docs,
                                                                   TR_Duration = now env st1 - startTime\<rparr>\<rparr>) st1
                in case Store_Update p st2 of
                     (Some e, st3) \<Rightarrow> (Some (''update task result: '' @ e), st3)
                   | (None, st3) \<Rightarrow> (None, st3))))"

text \<open>
  Lines 73 to 129, then the rest: what runs between \<open>Connect\<close> and the deferred
  \<open>Close\<close>. \<open>TakeSnapshot\<close> and \<open>generateDocuments\<close> always return a nil error,
  so the branches \<open>take snapshot\<close> and \<open>generate docs\<close> of the source cannot be taken
  and have no counterpart here. Log output is not modelled. The task and its \<open>LLM\<close> and
  \<open>Output\<close> configurations are never nil when the handler starts a task.
\<close>

definition runConnected :: "Env \<Rightarrow> nat \<Rightarrow> LLMClient \<Rightarrow> gotime \<Rightarrow> State \<Rightarrow> string option \<times> State" where
  "runConnected env p client startTime st =
     (let task = st_objs st p
      in case openTarget env task (st_hist st) of
           (Some e, h1) \<Rightarrow> failTask env p e (st\<lparr>st_hist := h1\<rparr>)
         | (None, h1) \<Rightarrow>
             (case TakeSnapshot env (Sleep (2 * Second) h1) of
                (snapshot, h3) \<Rightarrow>
                  (case ParseTask env client
                          \<lparr>PReq_UserInput = Task_Description task, PReq_TargetURL = Task_TargetURL task,
                            PReq_PageSnapshot = Some snapshot\<rparr> h3 of
                     (Inl e, h4) \<Rightarrow> failTask env p (''parse task: '' @ e) (st\<lparr>st_hist := h4\<rparr>)
                   | (Inr plan, h4) \<Rightarrow> runSteps env p client startTime plan snapshot (st\<lparr>st_hist := h4\<rparr>))))"

definition ExecuteTask :: "Env \<Rightarrow> nat \<Rightarrow> State \<Rightarrow> string option \<times> State" where
  "ExecuteTask env p st =
     (let st1 = setTask p (\<lambda>t. t\<lparr>Task_Status := TaskStatusRunning, Task_UpdatedAt := now env st\<rparr>) st
      in case Store_Update p st1 of
           (Some e, st2) \<Rightarrow> (Some (''update task status: '' @ e), st2)
         | (None, st2) \<Rightarrow>
             (let startTime = now env st2
              in case NewClient (Task_LLM (st_objs st2 p)) of
                   Inl e \<Rightarrow> failTask env p (''create llm client: '' @ e) st2
                 | Inr client \<Rightarrow>
                     (let st3 = setTask p (\<lambda>t. t\<lparr>Task_LLM := clientConfig client\<rparr>) st2
                      in case Connect env (st_hist st3) of
                           (Some e, h1) \<Rightarrow> failTask env p (''connect browser: '' @ e) (st3\<lparr>st_hist := h1\<rparr>)
                         | (None, h1) \<Rightarrow>
                             (case runConnected env p client startTime (st3\<lparr>st_hist := h1\<rparr>) of
                                (r, st4) \<Rightarrow> (r, st4\<lparr>st_hist := Close env (st_hist st4)\<rparr>)))))"


section \<open>A concrete environment\<close>

text \<open>
  A scripted environment on which the theorems below are exercised. The page reports the
  URL of the last navigation; navigating to \<open>http://slow.example\<close> times out after the
  page has changed; clicking \<open>#missing\<close> fails. The clock advances one second per call.
  The HTTP transport answers 401 to the key \<open>bad\<close> and otherwise 200 with a reply that
  wraps a JSON object in prose. The JSON doubles agree with \<open>encoding/json\<close> on the texts
  that occur: they decode the two objects below and reject text that starts with prose.
  (\<open>CHR 0x22\<close> is the double quote, \<open>CHR 0x0A\<close> the line feed.)
\<close>

definition planObject :: string where
  "planObject =
     ''{'' @ [CHR 0x22] @ ''task_id'' @ [CHR 0x22] @ '':'' @ [CHR 0x22] @ ''t1'' @ [CHR 0x22]
     @ '','' @ [CHR 0x22] @ ''description'' @ [CHR 0x22] @ '':'' @ [CHR 0x22] @ ''d''
     @ [CHR 0x22] @ '','' @ [CHR 0x22] @ ''steps'' @ [CHR 0x22] @ '':[]}''"

definition planReply :: string where
  "planReply = ''Here is the plan:'' @ [CHR 0x0A] @ planObject @ [CHR 0x0A] @ ''Thanks''"

definition strayReply :: string where
  "strayReply = ''Done } '' @ planObject"

definition refinedObject :: string where
  "refinedObject =
     ''{'' @ [CHR 0x22] @ ''order'' @ [CHR 0x22] @ '':2,'' @ [CHR 0x22] @ ''action''
     @ [CHR 0x22] @ '':'' @ [CHR 0x22] @ ''click'' @ [CHR 0x22] @ '','' @ [CHR 0x22]
     @ ''target'' @ [CHR 0x22] @ '':'' @ [CHR 0x22] @ ''#found'' @ [CHR 0x22] @ ''}''"

definition refineReply :: string where
  "refineReply = ''Use this selector: '' @ refinedObject"

definition demoPlan :: TaskPlan where
  "demoPlan = \<lparr>Plan_TaskID = ''t1'', Plan_Description = ''d'', Plan_Steps = []\<rparr>"

definition refinedStep :: ActionStep where
  "refinedStep = \<lparr>Step_Order = 2, Step_Action = ''click'', Step_Target = ''#found'', Step_Value = [],
     Step_WaitFor = [], Step_Screenshot = False, Step_Description = []\<rparr>"

definition lastNavigated :: "history \<Rightarrow> string" where
  "lastNavigated h = foldl (\<lambda>u e. case e of EvNavigate url \<Rightarrow> url | _ \<Rightarrow> u) ''about:blank'' h"

definition demoHttpDo :: "history \<Rightarrow> HttpRequest \<Rightarrow> string + HttpResponse" where
  "demoHttpDo h req =
     (if Header_Get ''Authorization'' (Req_Header req) = Some ''Bearer bad''
      then Inr \<lparr>HResp_StatusCode = 401, HResp_Status = ''401 Unauthorized'', HResp_Body = ''denied''\<rparr>
      else Inr \<lparr>HResp_StatusCode = 200, HResp_Status = ''200 OK'',
                 HResp_Body = (case last h of EvRefineStep s sn \<Rightarrow> refineReply | _ \<Rightarrow> planReply)\<rparr>)"

definition demoEnv :: Env where
  "demoEnv = \<lparr>
     pw_Connect = (\<lambda>h. None),
     pw_Goto = (\<lambda>h url. if url = ''http://slow.example'' then Some ''Timeout 30000ms exceeded'' else None),
     pw_URL = lastNavigated,
     pw_Title = (\<lambda>h. ''Demo''),
     pw_Evaluate = (\<lambda>h. [(''button'', ''Go'')]),
     pw_WaitForLoadState = (\<lambda>h t. None),
     pw_Click = (\<lambda>h sel. if sel = ''#missing'' then Some ''element not found'' else None),
     pw_Fill = (\<lambda>h sel v. None),
     pw_Hover = (\<lambda>h sel. None),
     pw_SelectOption = (\<lambda>h sel v. None),
     pw_WaitForSelector = (\<lambda>h sel t. None),
     pw_Screenshot = (\<lambda>h opts. Inr ''PNG''),
     pw_Cookies = (\<lambda>h. Inr []),
     pw_AddCookies = (\<lambda>h cs. None),
     sys_Now = (\<lambda>h. int (length h) * Second),
     sys_UUID = (\<lambda>h. ''id-'' @ replicate (length h) (CHR ''i'')),
     sys_Select = (\<lambda>h. SelTimeout),
     sys_HttpDo = demoHttpDo,
     sys_NewRequestErr = (\<lambda>url. None),
     json_DecodeOpenAI = (\<lambda>body. Inr \<lparr>OA_Choices = [\<lparr>Choice_Content = body, Choice_FinishReason = ''stop''\<rparr>],
                                        OA_Usage = \<lparr>Usage_PromptTokens = 0, Usage_CompletionTokens = 0,
                                                     Usage_TotalTokens = 0\<rparr>\<rparr>),
     json_DecodeAnthropic = (\<lambda>body. Inr \<lparr>An_Content = [body], An_StopReason = ''end_turn'',
                                           An_InputTokens = 0, An_OutputTokens = 0\<rparr>),
     json_UnmarshalPlan = (\<lambda>data plan. if data = planObject then (None, demoPlan)
                                         else (Some ''invalid character'', plan)),
     json_UnmarshalStep = (\<lambda>data step. if data = refinedObject then (None, refinedStep)
                                         else (Some ''invalid character'', step)),
     doc_Generate = (\<lambda>format task plan results. Inr ''# doc'')\<rparr>"

definition demoConfig :: LLMConfig where
  "demoConfig = \<lparr>LLM_Provider = ''openai'', LLM_Model = ''gpt-4o'', LLM_Endpoint = [],
     LLM_APIKey = ''k'', LLM_Options = None\<rparr>"

definition goodClient :: LLMClient where
  "goodClient = OpenAICompatibleClient (demoConfig\<lparr>LLM_Endpoint := ''https://api.openai.com/v1''\<rparr>)"

definition clickStep :: "int \<Rightarrow> string \<Rightarrow> ActionStep" where
  "clickStep n target = \<lparr>Step_Order = n, Step_Action = ''click'', Step_Target = target, Step_Value = [],
     Step_WaitFor = [], Step_Screenshot = False, Step_Description = []\<rparr>"

definition slowStep :: ActionStep where
  "slowStep = \<lparr>Step_Order = 1, Step_Action = ''navigate'', Step_Target = ''http://slow.example'',
     Step_Value = [], Step_WaitFor = [], Step_Screenshot = False, Step_Description = []\<rparr>"

definition demoSteps :: "ActionStep list" where
  "demoSteps = [clickStep 1 ''#first'', clickStep 2 ''#missing'', clickStep 3 ''#third'']"

definition demoSnapshot :: PageSnapshot where
  "demoSnapshot = fst (TakeSnapshot demoEnv [EvNavigate ''http://start.example''])"

definition demoHistory :: history where
  "demoHistory = [EvNavigate ''http://start.example'', EvTakeSnapshot]"

definition demoTask :: Task where
  "demoTask = \<lparr>Task_ID = ''task-1'', Task_Description = ''demo'', Task_TargetURL = ''http://start.example'',
     Task_Status = TaskStatusPending, Task_Auth = None, Task_LLM = demoConfig,
     Task_Output = \<lparr>Out_Formats = [''markdown''], Out_Language = ''zh'', Out_Title = []\<rparr>,
     Task_Result = None, Task_ErrorMessage = [], Task_CreatedAt = 0, Task_UpdatedAt = 0,
     Task_CompletedAt = None\<rparr>"

definition demoState :: State where
  "demoState = \<lparr>st_objs = (\<lambda>p. demoTask), st_tasks = [''task-1'' \<mapsto> 0], st_hist = []\<rparr>"


definition authConfigOf :: "string \<Rightarrow> string \<Rightarrow> AuthConfig" where
  "authConfigOf ty token = \<lparr>Auth_Type = ty,
     Auth_Credentials = Some \<lparr>Cred_Username = [], Cred_Password = [], Cred_Token = token, Cred_APIKey = []\<rparr>,
     Auth_SSOConfig = None, Auth_SessionID = [], Auth_Cookies = [], Auth_Headers = []\<rparr>"

definition expiringSession :: Session where
  "expiringSession = \<lparr>Session_ID = ''s'', Session_UserID = [], Session_Cookies = [], Session_Headers = [],
     Session_ExpiresAt = 2 * Second, Session_CreatedAt = 0\<rparr>"

definition anthropicConfig :: LLMConfig where
  "anthropicConfig = \<lparr>LLM_Provider = ''anthropic'', LLM_Model = ''claude'', LLM_Endpoint = [],
     LLM_APIKey = ''sk'', LLM_Options = None\<rparr>"

definition unstoredState :: State where
  "unstoredState = demoState\<lparr>st_tasks := Map.empty\<rparr>"

definition okResult :: StepResult where
  "okResult = \<lparr>Res_Success = True, Res_Error = [], Res_Screenshot = []\<rparr>"

definition strayEnv :: Env where
  "strayEnv = demoEnv\<lparr>sys_HttpDo := (\<lambda>h req. Inr \<lparr>HResp_StatusCode = 200, HResp_Status = ''200 OK'',
                                                     HResp_Body = strayReply\<rparr>)\<rparr>"

definition demoRequest :: PlanRequest where
  "demoRequest = \<lparr>PReq_UserInput = ''demo'', PReq_TargetURL = ''http://start.example'',
     PReq_PageSnapshot = Some demoSnapshot\<rparr>"

definition twoClicks :: TaskPlan where
  "twoClicks = \<lparr>Plan_TaskID = ''t1'', Plan_Description = ''d'',
     Plan_Steps = [clickStep 1 ''#first'', clickStep 2 ''#third'']\<rparr>"

definition runningState :: State where
  "runningState = \<lparr>st_objs = (\<lambda>p. demoTask\<lparr>Task_Status := TaskStatusRunning\<rparr>),
     st_tasks = [''task-1'' \<mapsto> 0], st_hist = demoHistory\<rparr>"

definition threeSteps :: TaskPlan where
  "threeSteps = \<lparr>Plan_TaskID = ''t1'', Plan_Description = ''d'', Plan_Steps = demoSteps\<rparr>"

text \<open>
  Scripted environments for whole runs of \<open>ExecuteTask\<close>: the model answers the planning
  call with the JSON text \<open>planText\<close>, which the decoder double decodes to \<open>plan\<close>, and
  every refinement call with \<open>refineBody\<close>. \<open>stepsObject\<close> is the JSON text of
  \<open>threeSteps\<close> and \<open>staleObject\<close> the JSON text of \<open>stalePlan\<close>.
\<close>

definition stepsObject :: string where
  "stepsObject =
     ''{'' @ [CHR 0x22] @ ''task_id'' @ [CHR 0x22] @ '':'' @ [CHR 0x22] @ ''t1'' @ [CHR 0x22]
     @ '','' @ [CHR 0x22] @ ''description'' @ [CHR 0x22] @ '':'' @ [CHR 0x22] @ ''d''
     @ [CHR 0x22] @ '','' @ [CHR 0x22] @ ''steps'' @ [CHR 0x22] @ '':[{'' @ [CHR 0x22]
     @ ''order'' @ [CHR 0x22] @ '':1,'' @ [CHR 0x22] @ ''action'' @ [CHR 0x22] @ '':''
     @ [CHR 0x22] @ ''click'' @ [CHR 0x22] @ '','' @ [CHR 0x22] @ ''target'' @ [CHR 0x22]
     @ '':'' @ [CHR 0x22] @ ''#first'' @ [CHR 0x22] @ ''},{'' @ [CHR 0x22] @ ''order''
     @ [CHR 0x22] @ '':2,'' @ [CHR 0x22] @ ''action'' @ [CHR 0x22] @ '':'' @ [CHR 0x22]
     @ ''click'' @ [CHR 0x22] @ '','' @ [CHR 0x22] @ ''target'' @ [CHR 0x22] @ '':''
     @ [CHR 0x22] @ ''#missing'' @ [CHR 0x22] @ ''},{'' @ [CHR 0x22] @ ''order'' @ [CHR 0x22]
     @ '':3,'' @ [CHR 0x22] @ ''action'' @ [CHR 0x22] @ '':'' @ [CHR 0x22] @ ''click''
     @ [CHR 0x22] @ '','' @ [CHR 0x22] @ ''target'' @ [CHR 0x22] @ '':'' @ [CHR 0x22]
     @ ''#third'' @ [CHR 0x22] @ ''}]}''"

definition stalePlan :: TaskPlan where
  "stalePlan = \<lparr>Plan_TaskID = ''t1'', Plan_Description = ''d'',
     Plan_Steps = [clickStep 1 ''#first'', slowStep\<lparr>Step_Order := 2\<rparr>, clickStep 3 ''#missing'']\<rparr>"

definition staleObject :: string where
  "staleObject =
     ''{'' @ [CHR 0x22] @ ''task_id'' @ [CHR 0x22] @ '':'' @ [CHR 0x22] @ ''t1'' @ [CHR 0x22]
     @ '','' @ [CHR 0x22] @ ''description'' @ [CHR 0x22] @ '':'' @ [CHR 0x22] @ ''d''
     @ [CHR 0x22] @ '','' @ [CHR 0x22] @ ''steps'' @ [CHR 0x22] @ '':[{'' @ [CHR 0x22]
     @ ''order'' @ [CHR 0x22] @ '':1,'' @ [CHR 0x22] @ ''action'' @ [CHR 0x22] @ '':''
     @ [CHR 0x22] @ ''click'' @ [CHR 0x22] @ '','' @ [CHR 0x22] @ ''target'' @ [CHR 0x22]
     @ '':'' @ [CHR 0x22] @ ''#first'' @ [CHR 0x22] @ ''},{'' @ [CHR 0x22] @ ''order''
     @ [CHR 0x22] @ '':2,'' @ [CHR 0x22] @ ''action'' @ [CHR 0x22] @ '':'' @ [CHR 0x22]
     @ ''navigate'' @ [CHR 0x22] @ '','' @ [CHR 0x22] @ ''target'' @ [CHR 0x22] @ '':''
     @ [CHR 0x22] @ ''http://slow.example'' @ [CHR 0x22] @ ''},{'' @ [CHR 0x22] @ ''order''
     @ [CHR 0x22] @ '':3,'' @ [CHR 0x22] @ ''action'' @ [CHR 0x22] @ '':'' @ [CHR 0x22]
     @ ''click'' @ [CHR 0x22] @ '','' @ [CHR 0x22] @ ''target'' @ [CHR 0x22] @ '':''
     @ [CHR 0x22] @ ''#missing'' @ [CHR 0x22] @ ''}]}''"

definition scriptedEnv :: "string \<Rightarrow> TaskPlan \<Rightarrow> string \<Rightarrow> Env" where
  "scriptedEnv planText plan refineBody = demoEnv\<lparr>
     sys_HttpDo := (\<lambda>h req. Inr \<lparr>HResp_StatusCode = 200, HResp_Status = ''200 OK'',
                                  HResp_Body = (case last h of EvRefineStep s sn \<Rightarrow> refineBody
                                                | _ \<Rightarrow> planText)\<rparr>),
     json_UnmarshalPlan := (\<lambda>data p. if data = planText then (None, plan)
                                       else (Some ''invalid character'', p))\<rparr>"

definition refiningEnv :: Env where
  "refiningEnv = scriptedEnv stepsObject threeSteps refineReply"

definition refusingEnv :: Env where
  "refusingEnv = scriptedEnv stepsObject threeSteps ''Sorry, no idea''"

definition staleEnv :: Env where
  "staleEnv = scriptedEnv staleObject stalePlan ''Sorry, no idea''"

text \<open>The page of the scripted environments as a snapshot shows it while the browser is at
  \<open>http://start.example\<close>, captured at second \<open>n\<close> of the clock.\<close>

definition startPage :: "int \<Rightarrow> PageSnapshot" where
  "startPage n = \<lparr>Snap_URL = ''http://start.example'', Snap_Title = ''Demo'', Snap_HTML = [],
     Snap_A11yTree = [],
     Snap_Elements = [\<lparr>El_TagName = ''button'', El_Selector = [], El_Text = ''Go'',
                        El_Visible = True, El_Clickable = True\<rparr>],
     Snap_Timestamp = n * Second\<rparr>"

section \<open>Vocabulary of the properties\<close>

text \<open>The events of the driver's action operations, the ones \<open>executeStep\<close> dispatches to.\<close>

fun isActionEvent :: "event \<Rightarrow> bool" where
  "isActionEvent (EvNavigate u) = True"
| "isActionEvent (EvClick s) = True"
| "isActionEvent (EvFill s v) = True"
| "isActionEvent (EvHover s) = True"
| "isActionEvent (EvSelect s v) = True"
| "isActionEvent (EvWaitForSelector s t) = True"
| "isActionEvent e = False"

text \<open>
  A balanced brace-delimited text: it opens with a brace, and the closing brace that matches
  it is its last character. \<open>closesAt cs d\<close> reads the rest at depth \<open>d\<close>.
\<close>

fun closesAt :: "string \<Rightarrow> int \<Rightarrow> bool" where
  "closesAt [] d = False"
| "closesAt (c # cs) d =
     (if c = CHR 0x7B then closesAt cs (d + 1)
      else if c = CHR 0x7D then (if d - 1 = 0 then cs = [] else closesAt cs (d - 1))
      else closesAt cs d)"

definition balancedObject :: "string \<Rightarrow> bool" where
  "balancedObject body = (case body of [] \<Rightarrow> False | c # cs \<Rightarrow> c = CHR 0x7B \<and> closesAt cs 1)"

text \<open>The events that show the page flow of a run: the driver's actions, the snapshots
  and the refinement calls.\<close>

fun isTraceEvent :: "event \<Rightarrow> bool" where
  "isTraceEvent EvTakeSnapshot = True"
| "isTraceEvent (EvRefineStep s sn) = True"
| "isTraceEvent e = isActionEvent e"

text \<open>The history of a run up to the refinement call for a given step: what had happened
  when \<open>RefineStep\<close> was called for it (the whole history if it never was).\<close>

fun beforeRefine :: "ActionStep \<Rightarrow> history \<Rightarrow> history" where
  "beforeRefine step [] = []"
| "beforeRefine step (e # es) =
     (case e of
        EvRefineStep s sn \<Rightarrow> if s = step then [] else e # beforeRefine step es
      | _ \<Rightarrow> e # beforeRefine step es)"

section \<open>Verified properties\<close>

subsection \<open>Authenticator\<close>

lemma newSession_expiry:
  "newSession env cookies headers h = (s, h') \<Longrightarrow> Session_ExpiresAt s = sys_Now env h' + 24 * Hour"
  by (auto simp: newSession_def NewUUID_def Let_def)

lemma harvestSession_expiry:
  "harvestSession env h = (Inr s, h') \<Longrightarrow> Session_ExpiresAt s = sys_Now env h' + 24 * Hour"
  by (auto simp: harvestSession_def Let_def split: prod.splits sum.splits dest: newSession_expiry)

lemma manualLoop_expiry:
  "manualLoop env n h = (Inr s, h') \<Longrightarrow> Session_ExpiresAt s = sys_Now env h' + 24 * Hour"
proof (induction n arbitrary: h)
  case 0
  then show ?case by simp
next
  case (Suc n)
  then show ?case
    by (auto simp: Let_def split: select_ev.splits prod.splits if_splits dest: harvestSession_expiry)
qed

lemma authenticateWithForm_expiry:
  "authenticateWithForm env config h = (Inr s, h') \<Longrightarrow> Session_ExpiresAt s = sys_Now env h' + 24 * Hour"
  by (auto simp: authenticateWithForm_def Let_def split: option.splits prod.splits
      dest: harvestSession_expiry)

lemma authenticateWithSSO_expiry:
  "authenticateWithSSO env config h = (Inr s, h') \<Longrightarrow> Session_ExpiresAt s = sys_Now env h' + 24 * Hour"
  by (auto simp: authenticateWithSSO_def Let_def split: option.splits prod.splits if_splits
      dest: harvestSession_expiry)

lemma authenticateWithCookies_expiry:
  "authenticateWithCookies env config h = (Inr s, h') \<Longrightarrow> Session_ExpiresAt s = sys_Now env h' + 24 * Hour"
  by (auto simp: authenticateWithCookies_def Let_def split: option.splits prod.splits if_splits
      dest: newSession_expiry)

lemma authenticateWithToken_expiry:
  "authenticateWithToken env config h = (Inr s, h') \<Longrightarrow> Session_ExpiresAt s = sys_Now env h' + 24 * Hour"
  by (auto simp: authenticateWithToken_def Let_def split: option.splits prod.splits if_splits
      dest: newSession_expiry)

lemma Authenticate_expiry:
  "Authenticate env config h = (Inr s, h') \<Longrightarrow> Session_ExpiresAt s = sys_Now env h' + 24 * Hour"
  by (auto simp: Authenticate_def createEmptySession_def authenticateManually_def Let_def
      split: if_splits prod.splits
      dest: newSession_expiry authenticateWithForm_expiry authenticateWithSSO_expiry
        manualLoop_expiry authenticateWithCookies_expiry authenticateWithToken_expiry)

lemma day_positive: "0 < 24 * Hour"
  by (simp add: Hour_def Minute_def Second_def Millisecond_def)

text \<open>
  Claim C6. For every authentication configuration, whatever its type string,
  \<open>Authenticate\<close> returns either an error or a session whose expiry instant lies after the
  clock reading at the moment it returns (it is that reading plus 24 hours). For type
  \<open>none\<close> it returns a session without touching the browser: the only call is the one that
  draws the session id. For type \<open>cookie\<close> with no cookies it fails with
  \<open>cookies required\<close>, and for type \<open>token\<close> with absent credentials or an empty token it
  fails with \<open>token required\<close>, in both cases before any call.
\<close>

theorem Authenticate_session_or_error:
  "((\<exists>e h'. Authenticate env config h = (Inl e, h'))
      \<or> (\<exists>s h'. Authenticate env config h = (Inr s, h') \<and> sys_Now env h' < Session_ExpiresAt s))
   \<and> (Auth_Type c1 = AuthTypeNone \<longrightarrow>
        Authenticate env c1 h = (Inr (fst (createEmptySession env h)), h @ [EvUUID]))
   \<and> (Auth_Type c2 = AuthTypeCookie \<and> Auth_Cookies c2 = [] \<longrightarrow>
        Authenticate env c2 h = (Inl ''cookies required'', h))
   \<and> (Auth_Type c3 = AuthTypeToken
        \<and> (case Auth_Credentials c3 of None \<Rightarrow> True | Some creds \<Rightarrow> Cred_Token creds = []) \<longrightarrow>
        Authenticate env c3 h = (Inl ''token required'', h))"
proof (intro conjI impI)
  show "(\<exists>e h'. Authenticate env config h = (Inl e, h'))
      \<or> (\<exists>s h'. Authenticate env config h = (Inr s, h') \<and> sys_Now env h' < Session_ExpiresAt s)"
  proof (cases "Authenticate env config h")
    case (Pair r h')
    show ?thesis
    proof (cases r)
      case (Inl e)
      with Pair show ?thesis by simp
    next
      case (Inr s)
      with Pair have "Session_ExpiresAt s = sys_Now env h' + 24 * Hour"
        by (simp add: Authenticate_expiry)
      with day_positive Pair Inr show ?thesis by simp
    qed
  qed
next
  assume "Auth_Type c1 = AuthTypeNone"
  then show "Authenticate env c1 h = (Inr (fst (createEmptySession env h)), h @ [EvUUID])"
    by (simp add: Authenticate_def createEmptySession_def newSession_def NewUUID_def Let_def)
next
  assume "Auth_Type c2 = AuthTypeCookie \<and> Auth_Cookies c2 = []"
  then show "Authenticate env c2 h = (Inl ''cookies required'', h)"
    by (simp add: Authenticate_def authenticateWithCookies_def AuthTypeCookie_def AuthTypeNone_def
        AuthTypeForm_def AuthTypeSSO_def AuthTypeManual_def)
next
  assume "Auth_Type c3 = AuthTypeToken
        \<and> (case Auth_Credentials c3 of None \<Rightarrow> True | Some creds \<Rightarrow> Cred_Token creds = [])"
  then show "Authenticate env c3 h = (Inl ''token required'', h)"
    by (simp add: Authenticate_def authenticateWithToken_def AuthTypeToken_def AuthTypeCookie_def
        AuthTypeNone_def AuthTypeForm_def AuthTypeSSO_def AuthTypeManual_def split: option.splits)
qed

theorem Authenticate_session_or_error_witness:
  "Auth_Type (authConfigOf ''none'' []) = AuthTypeNone
   \<and> Authenticate demoEnv (authConfigOf ''none'' []) [] =
       (Inr (fst (createEmptySession demoEnv [])), [EvUUID])
   \<and> Auth_Type (authConfigOf ''cookie'' []) = AuthTypeCookie
   \<and> Auth_Cookies (authConfigOf ''cookie'' []) = []
   \<and> Authenticate demoEnv (authConfigOf ''cookie'' []) [] = (Inl ''cookies required'', [])
   \<and> Auth_Type (authConfigOf ''token'' []) = AuthTypeToken
   \<and> Authenticate demoEnv (authConfigOf ''token'' []) [] = (Inl ''token required'', [])
   \<and> fst (Authenticate demoEnv (authConfigOf ''token'' ''abc'') []) =
       Inr \<lparr>Session_ID = ''id-'', Session_UserID = [], Session_Cookies = [],
            Session_Headers = [(''Authorization'', ''Bearer abc'')],
            Session_ExpiresAt = 86401 * Second, Session_CreatedAt = Second\<rparr>"
  using Authenticate_session_or_error
    [of demoEnv "authConfigOf ''token'' ''abc''" "[]" "authConfigOf ''none'' []"
        "authConfigOf ''cookie'' []" "authConfigOf ''token'' []"]
  by (simp add: authConfigOf_def AuthTypeNone_def AuthTypeCookie_def AuthTypeToken_def
      AuthTypeForm_def AuthTypeSSO_def AuthTypeManual_def
      Authenticate_def authenticateWithToken_def newSession_def NewUUID_def demoEnv_def
      Hour_def Minute_def Second_def Millisecond_def Let_def)

text \<open>
  Claim C7, as the code has it. \<open>ValidateSession\<close> never returns an error; it answers
  false for a nil session and for a session whose expiry instant is before the clock
  reading, and true otherwise. So a session is valid exactly when it is non-nil and its
  expiry instant is not in the past: a session that expires at the very instant of the
  check is still valid.
\<close>

theorem ValidateSession_valid_iff_not_past:
  "snd (ValidateSession env session h) = None
   \<and> fst (ValidateSession env session h) =
       (case session of None \<Rightarrow> False | Some s \<Rightarrow> sys_Now env h \<le> Session_ExpiresAt s)"
  by (auto simp: ValidateSession_def split: option.splits)

text \<open>
  Claim C7 as stated equates validity with an expiry instant in the future. At the instant
  of expiry the two differ: the session below expires at second 2, the clock reads second 2,
  and the session is reported valid although its expiry is not in the future.
\<close>

theorem ValidateSession_at_expiry_counterexample:
  "fst (ValidateSession demoEnv (Some expiringSession) demoHistory)
   \<and> \<not> sys_Now demoEnv demoHistory < Session_ExpiresAt expiringSession"
  by (simp add: ValidateSession_def demoEnv_def demoHistory_def expiringSession_def)

subsection \<open>Step execution\<close>

text \<open>
  Claim C9. For every step whose action kind is none of navigate, click, fill, hover,
  select and wait (so for the kinds screenshot and scroll, and for any other string),
  \<open>executeStep\<close> returns a result with \<open>Success = true\<close>, an empty error text and a nil
  error, and it adds no event of a driver action operation to the history.
\<close>

theorem executeStep_unknown_kind:
  "Step_Action step \<notin> {ActionNavigate, ActionClick, ActionFill, ActionHover, ActionSelect, ActionWait} \<Longrightarrow>
   fst (fst (executeStep env step h)) = \<lparr>Res_Success = True, Res_Error = [], Res_Screenshot = []\<rparr>
   \<and> snd (snd (fst (executeStep env step h))) = None
   \<and> filter isActionEvent (snd (executeStep env step h)) = filter isActionEvent h"
  by (auto simp: executeStep_def dispatchAction_def Let_def Sleep_def TakeScreenshot_def NewUUID_def
      split: prod.splits sum.splits)

theorem executeStep_unknown_kind_witness:
  "ActionScroll \<notin> {ActionNavigate, ActionClick, ActionFill, ActionHover, ActionSelect, ActionWait}
   \<and> ActionScreenshot \<notin> {ActionNavigate, ActionClick, ActionFill, ActionHover, ActionSelect, ActionWait}
   \<and> executeStep demoEnv (slowStep\<lparr>Step_Action := ActionScroll, Step_Screenshot := True\<rparr>) demoHistory =
       ((\<lparr>Res_Success = True, Res_Error = [], Res_Screenshot = []\<rparr>,
         Some \<lparr>Scr_ID = ''id-iiii'', Scr_StepOrder = 1, Scr_CreatedAt = 5 * Second\<rparr>, None),
        demoHistory @ [EvSleep (500 * Millisecond),
                       EvTakeScreenshot \<lparr>Shot_FullPage = False, Shot_Quality = 90, Shot_Type = ''png''\<rparr>,
                       EvUUID])"
  using executeStep_unknown_kind
    [of "slowStep\<lparr>Step_Action := ActionScroll, Step_Screenshot := True\<rparr>" demoEnv demoHistory]
  by (simp add: ActionScroll_def ActionScreenshot_def ActionNavigate_def ActionClick_def ActionFill_def
      ActionHover_def ActionSelect_def ActionWait_def slowStep_def executeStep_def dispatchAction_def
      Let_def Sleep_def
      TakeScreenshot_def NewUUID_def demoEnv_def demoHistory_def)

subsection \<open>Client factory and clients\<close>

lemma openai_default_request:
  assumes "LLM_Provider c = LLMProviderOpenAI" "LLM_Endpoint c = []" "NewClient c = Inr client"
    and "sys_NewRequestErr env ''https://api.openai.com/v1/chat/completions'' = None"
  shows "LLM_Endpoint (clientConfig client) = ''https://api.openai.com/v1''
      \<and> (\<exists>req. snd (Chat env client msgs h) = h @ [EvHttpDo req]
             \<and> Req_Method req = ''POST''
             \<and> Req_URL req = ''https://api.openai.com/v1/chat/completions''
             \<and> Header_Get ''Authorization'' (Req_Header req) =
                 (if LLM_APIKey c \<noteq> [] then Some (''Bearer '' @ LLM_APIKey c) else None))"
proof -
  from assms have cl: "client = OpenAICompatibleClient (c\<lparr>LLM_Endpoint := ''https://api.openai.com/v1''\<rparr>)"
    by (auto simp: NewClient_def NewOpenAICompatibleClient_def LLMProviderOpenAI_def LLMProviderAnthropic_def)
  show ?thesis
    using assms(4) unfolding cl
    by (auto simp: clientConfig_def Chat_def OpenAI_Chat_def OpenAI_request_def Let_def
        Header_Set_def Header_Get_def split: sum.splits list.splits)
qed

lemma anthropic_request:
  assumes "LLM_Provider a = LLMProviderAnthropic" "NewClient a = Inr aclient"
    and "sys_NewRequestErr env (LLM_Endpoint (clientConfig aclient) @ ''/messages'') = None"
  shows "LLM_Endpoint (clientConfig aclient) =
        (if LLM_Endpoint a = [] then ''https://api.anthropic.com/v1'' else LLM_Endpoint a)
      \<and> (\<exists>req. snd (Chat env aclient msgs h) = h @ [EvHttpDo req]
             \<and> Req_Method req = ''POST''
             \<and> Req_URL req = LLM_Endpoint (clientConfig aclient) @ ''/messages''
             \<and> Header_Get ''x-api-key'' (Req_Header req) = Some (LLM_APIKey a)
             \<and> Header_Get ''anthropic-version'' (Req_Header req) = Some ''2023-06-01''
             \<and> Header_Get ''Authorization'' (Req_Header req) = None)"
proof -
  from assms have cl: "aclient = AnthropicClient
      (if LLM_Endpoint a = [] then a\<lparr>LLM_Endpoint := ''https://api.anthropic.com/v1''\<rparr> else a)"
    by (auto simp: NewClient_def NewAnthropicClient_def)
  show ?thesis
    using assms(3) unfolding cl
    by (auto simp: clientConfig_def Chat_def Anthropic_Chat_def Anthropic_request_def Let_def
        Header_Set_def Header_Get_def split: sum.splits list.splits)
qed

text \<open>
  Claim C8. For provider \<open>openai\<close> with an empty endpoint the factory returns a client
  whose endpoint is \<open>https://api.openai.com/v1\<close>, and its \<open>Chat\<close> hands the HTTP client
  exactly one request: a POST to that endpoint followed by \<open>/chat/completions\<close>, with the
  header \<open>Authorization: Bearer <key>\<close> when an API key is set and no such header otherwise.
  For provider \<open>anthropic\<close> the client's \<open>Chat\<close> hands over exactly one request: a POST to
  the effective endpoint followed by \<open>/messages\<close>, with the headers \<open>x-api-key\<close> (the key)
  and \<open>anthropic-version\<close>, and without an \<open>Authorization\<close> header. In both cases the
  request exists when \<open>net/http\<close> accepts the URL, which is the hypothesis on
  \<open>sys_NewRequestErr\<close>.
\<close>

theorem client_factory_requests:
  "(LLM_Provider c = LLMProviderOpenAI \<and> LLM_Endpoint c = [] \<and> NewClient c = Inr client
      \<and> sys_NewRequestErr env ''https://api.openai.com/v1/chat/completions'' = None \<longrightarrow>
      LLM_Endpoint (clientConfig client) = ''https://api.openai.com/v1''
      \<and> (\<exists>req. snd (Chat env client msgs h) = h @ [EvHttpDo req]
             \<and> Req_Method req = ''POST''
             \<and> Req_URL req = ''https://api.openai.com/v1/chat/completions''
             \<and> Header_Get ''Authorization'' (Req_Header req) =
                 (if LLM_APIKey c \<noteq> [] then Some (''Bearer '' @ LLM_APIKey c) else None)))
   \<and> (LLM_Provider a = LLMProviderAnthropic \<and> NewClient a = Inr aclient
      \<and> sys_NewRequestErr env (LLM_Endpoint (clientConfig aclient) @ ''/messages'') = None \<longrightarrow>
      LLM_Endpoint (clientConfig aclient) =
        (if LLM_Endpoint a = [] then ''https://api.anthropic.com/v1'' else LLM_Endpoint a)
      \<and> (\<exists>req. snd (Chat env aclient msgs h) = h @ [EvHttpDo req]
             \<and> Req_Method req = ''POST''
             \<and> Req_URL req = LLM_Endpoint (clientConfig aclient) @ ''/messages''
             \<and> Header_Get ''x-api-key'' (Req_Header req) = Some (LLM_APIKey a)
             \<and> Header_Get ''anthropic-version'' (Req_Header req) = Some ''2023-06-01''
             \<and> Header_Get ''Authorization'' (Req_Header req) = None))"
  using openai_default_request[of c client env msgs h] anthropic_request[of a aclient env msgs h]
  by blast

theorem client_factory_requests_witness:
  "LLM_Provider demoConfig = LLMProviderOpenAI \<and> LLM_Endpoint demoConfig = []
   \<and> NewClient demoConfig = Inr goodClient
   \<and> sys_NewRequestErr demoEnv ''https://api.openai.com/v1/chat/completions'' = None
   \<and> snd (Chat demoEnv goodClient [] []) =
       [EvHttpDo \<lparr>Req_Method = ''POST'', Req_URL = ''https://api.openai.com/v1/chat/completions'',
                   Req_Header = [(''Content-Type'', ''application/json''), (''Authorization'', ''Bearer k'')],
                   Req_Body = \<lparr>Body_model = ''gpt-4o'', Body_messages = [], Body_temperature = None,
                                Body_max_tokens = None\<rparr>\<rparr>]
   \<and> LLM_Provider anthropicConfig = LLMProviderAnthropic
   \<and> NewClient anthropicConfig =
       Inr (AnthropicClient (anthropicConfig\<lparr>LLM_Endpoint := ''https://api.anthropic.com/v1''\<rparr>))
   \<and> sys_NewRequestErr demoEnv ''https://api.anthropic.com/v1/messages'' = None
   \<and> snd (Chat demoEnv (AnthropicClient (anthropicConfig\<lparr>LLM_Endpoint := ''https://api.anthropic.com/v1''\<rparr>)) [] []) =
       [EvHttpDo \<lparr>Req_Method = ''POST'', Req_URL = ''https://api.anthropic.com/v1/messages'',
                   Req_Header = [(''Content-Type'', ''application/json''), (''x-api-key'', ''sk''),
                                 (''anthropic-version'', ''2023-06-01'')],
                   Req_Body = \<lparr>Body_model = ''claude'', Body_messages = [], Body_temperature = None,
                                Body_max_tokens = Some 4096\<rparr>\<rparr>]"
  using client_factory_requests
    [of demoConfig goodClient demoEnv "[]" "[]" anthropicConfig
        "AnthropicClient (anthropicConfig\<lparr>LLM_Endpoint := ''https://api.anthropic.com/v1''\<rparr>)"]
  by (simp add: demoConfig_def anthropicConfig_def goodClient_def NewClient_def
      NewOpenAICompatibleClient_def NewAnthropicClient_def LLMProviderOpenAI_def
      LLMProviderAnthropic_def clientConfig_def Chat_def OpenAI_Chat_def Anthropic_Chat_def
      OpenAI_request_def Anthropic_request_def Header_Set_def Header_Get_def demoEnv_def demoHttpDo_def Let_def)

lemma failTask_error: "failTask env p err st = (r, st') \<Longrightarrow> r = Some err"
  by (auto simp: failTask_def Let_def)

lemma runSteps_error_prefix:
  "runSteps env p client t0 plan snap st = (Some e, st') \<Longrightarrow> take 19 e \<noteq> ''create llm client: ''"
  by (auto simp: runSteps_def Let_def split: prod.splits option.splits)

lemma openTarget_error_prefix:
  "openTarget env task h = (Some e, h') \<Longrightarrow> take 19 e \<noteq> ''create llm client: ''"
  by (auto simp: openTarget_def Let_def split: prod.splits option.splits sum.splits if_splits)

lemma runConnected_error_prefix:
  "runConnected env p client t0 st = (Some e, st') \<Longrightarrow> take 19 e \<noteq> ''create llm client: ''"
  by (auto simp: runConnected_def Let_def split: prod.splits option.splits sum.splits
      dest!: failTask_error dest: runSteps_error_prefix openTarget_error_prefix)

lemma NewClient_returns:
  "NewClient config = Inr (if LLM_Provider config = LLMProviderAnthropic then NewAnthropicClient config
                           else NewOpenAICompatibleClient config)"
  by (simp add: NewClient_def)

lemma ExecuteTask_error_prefix:
  "ExecuteTask env p st = (Some e, st') \<Longrightarrow> take 19 e \<noteq> ''create llm client: ''"
  by (auto simp: ExecuteTask_def Let_def NewClient_returns split: prod.splits option.splits sum.splits
      dest!: failTask_error dest: runConnected_error_prefix)

text \<open>
  Claim C10. For every configuration \<open>NewClient\<close> returns a client and no error: the
  Anthropic client when the provider is \<open>anthropic\<close>, the OpenAI-compatible client for every
  other provider string. Hence \<open>ExecuteTask\<close> never takes its \<open>create llm client\<close> branch:
  no error it returns starts with that text.
\<close>

theorem NewClient_never_fails:
  "(\<exists>cfg. NewClient config = Inr (if LLM_Provider config = LLMProviderAnthropic
                                    then AnthropicClient cfg else OpenAICompatibleClient cfg))
   \<and> (fst (ExecuteTask env p st) = Some e \<longrightarrow> take 19 e \<noteq> ''create llm client: '')"
proof
  show "\<exists>cfg. NewClient config = Inr (if LLM_Provider config = LLMProviderAnthropic
                                    then AnthropicClient cfg else OpenAICompatibleClient cfg)"
    by (auto simp: NewClient_def NewAnthropicClient_def NewOpenAICompatibleClient_def)
  show "fst (ExecuteTask env p st) = Some e \<longrightarrow> take 19 e \<noteq> ''create llm client: ''"
    using ExecuteTask_error_prefix[of env p st e "snd (ExecuteTask env p st)"]
    by (metis prod.collapse)
qed

theorem NewClient_never_fails_witness:
  "fst (ExecuteTask demoEnv 0 unstoredState) = Some ''update task status: resource not found''
   \<and> take 19 ''update task status: resource not found'' \<noteq> ''create llm client: ''
   \<and> NewClient (demoConfig\<lparr>LLM_Provider := ''no-such-provider''\<rparr>) =
       Inr (OpenAICompatibleClient (demoConfig\<lparr>LLM_Provider := ''no-such-provider''\<rparr>))
   \<and> NewClient anthropicConfig =
       Inr (AnthropicClient (anthropicConfig\<lparr>LLM_Endpoint := ''https://api.anthropic.com/v1''\<rparr>))"
  using NewClient_never_fails
    [of anthropicConfig demoEnv 0 unstoredState "''update task status: resource not found''"]
  by (simp add: ExecuteTask_def unstoredState_def demoState_def demoTask_def setTask_def
      Store_Update_def ErrNotFound_def Let_def NewClient_def NewAnthropicClient_def
      NewOpenAICompatibleClient_def demoConfig_def anthropicConfig_def LLMProviderAnthropic_def
      LLMProviderOpenAI_def LLMProviderDeepSeek_def LLMProviderOllama_def LLMProviderMoonshot_def
      LLMProviderQwen_def)

subsection \<open>The step loop\<close>

lemma recordStep_eq:
  "recordStep env r s rs sc h =
     (fst (TakeSnapshot env h), rs @ [r], (case s of None \<Rightarrow> sc | Some x \<Rightarrow> sc @ [x]), h @ [EvTakeSnapshot])"
  by (simp add: recordStep_def TakeSnapshot_def)

lemma stepBody_success:
  "executeStep env step h = ((r, s, None), h1) \<Longrightarrow>
   stepBody env client step (snapshot, rs, sc, h) = recordStep env r s rs sc h1"
  by (simp add: stepBody_def)

lemma stepBody_refined:
  "executeStep env step h = ((r, s, Some e), h1) \<Longrightarrow>
   RefineStep env client step snapshot h1 = (Inr refined, h2) \<Longrightarrow>
   executeStep env refined h2 = ((r2, s2, err2), h3) \<Longrightarrow>
   stepBody env client step (snapshot, rs, sc, h) = recordStep env r2 s2 rs sc h3"
  by (simp add: stepBody_def)

lemma stepBody_refine_failed:
  "executeStep env step h = ((r, s, Some e), h1) \<Longrightarrow>
   RefineStep env client step snapshot h1 = (Inl re, h2) \<Longrightarrow>
   stepBody env client step (snapshot, rs, sc, h) =
     (snapshot, rs @ [\<lparr>Res_Success = False, Res_Error = e, Res_Screenshot = []\<rparr>], sc, h2)"
  by (simp add: stepBody_def)

lemma stepBody_one_result:
  "\<exists>r. fst (snd (stepBody env client step (snapshot, rs, sc, h))) = rs @ [r]"
  by (auto simp: stepBody_def recordStep_eq split: prod.splits option.splits sum.splits)

lemma stepLoop_append:
  "stepLoop env client (xs @ ys) vars = stepLoop env client ys (stepLoop env client xs vars)"
  by (induction xs arbitrary: vars) auto

lemma stepLoop_results_extend:
  "\<exists>new. fst (snd (stepLoop env client steps (snapshot, rs, sc, h))) = rs @ new \<and> length new = length steps"
proof (induction steps arbitrary: snapshot rs sc h)
  case Nil
  then show ?case by simp
next
  case (Cons step steps)
  obtain snapshot1 rs1 sc1 h1 where b: "stepBody env client step (snapshot, rs, sc, h) = (snapshot1, rs1, sc1, h1)"
    by (metis prod_cases4)
  from stepBody_one_result[of env client step snapshot rs sc h] b obtain r where r: "rs1 = rs @ [r]"
    by auto
  from Cons.IH[of snapshot1 rs1 sc1 h1] obtain new where
    "fst (snd (stepLoop env client steps (snapshot1, rs1, sc1, h1))) = rs1 @ new" "length new = length steps"
    by blast
  then show ?case
    using b r by (intro exI[of _ "r # new"]) simp
qed

lemma stepLoop_length:
  "length (fst (snd (stepLoop env client steps (snapshot, rs, sc, h)))) = length rs + length steps"
  using stepLoop_results_extend[of env client steps snapshot rs sc h] by auto

lemma stepLoop_prefix:
  "take (length rs + length xs) (fst (snd (stepLoop env client (xs @ ys) (snapshot, rs, sc, h))))
     = fst (snd (stepLoop env client xs (snapshot, rs, sc, h)))"
proof -
  obtain s1 rs1 sc1 h1 where a: "stepLoop env client xs (snapshot, rs, sc, h) = (s1, rs1, sc1, h1)"
    by (metis prod_cases4)
  have l: "length rs1 = length rs + length xs"
    using stepLoop_length[of env client xs snapshot rs sc h] a by simp
  from stepLoop_results_extend[of env client ys s1 rs1 sc1 h1] obtain new where
    "fst (snd (stepLoop env client ys (s1, rs1, sc1, h1))) = rs1 @ new" by blast
  then show ?thesis
    by (simp add: stepLoop_append a l)
qed

lemma dispatchAction_take: "take (length h) (snd (dispatchAction env step h)) = h"
  by (simp add: dispatchAction_def Navigate_def Click_def Fill_def Hover_def Select_def
      WaitForSelector_def Sleep_def)

lemma executeStep_take:
  "take (length h) (snd (executeStep env step h)) = h"
proof -
  obtain err h1 where d: "dispatchAction env step h = (err, h1)" by (metis surj_pair)
  with dispatchAction_take[of h env step] have "take (length h) h1 = h" by simp
  then obtain rest where h1: "h1 = h @ rest" by (metis append_take_drop_id)
  show ?thesis
    by (simp add: executeStep_def d h1 Let_def Sleep_def TakeScreenshot_def NewUUID_def
        split: option.splits sum.splits)
qed

lemma executeStep_extends: "\<exists>rest. snd (executeStep env step h) = h @ rest"
  by (metis executeStep_take append_take_drop_id)

lemma OpenAI_Chat_take: "take (length h) (snd (OpenAI_Chat env cfg msgs h)) = h"
  by (simp add: OpenAI_Chat_def Let_def split: option.splits sum.splits list.splits)

lemma Anthropic_Chat_take: "take (length h) (snd (Anthropic_Chat env cfg msgs h)) = h"
  by (simp add: Anthropic_Chat_def Let_def split: option.splits sum.splits list.splits)

lemma Chat_take: "take (length h) (snd (Chat env client msgs h)) = h"
  by (simp add: Chat_def OpenAI_Chat_take Anthropic_Chat_take split: LLMClient.splits)

lemma RefineStep_logged:
  "\<exists>rest. snd (RefineStep env client step snapshot h) = h @ EvRefineStep step snapshot # rest"
proof -
  define msgs where "msgs = [\<lparr>Msg_Role = ''system'', Msg_Content = systemPrompt\<rparr>,
       \<lparr>Msg_Role = ''user'', Msg_Content = Sprintf refineTemplate
                     [Step_Action step, Step_Target step, Step_Description step,
                      Snap_URL snapshot, Snap_Title snapshot, formatElements (Snap_Elements snapshot)]\<rparr>]"
  obtain r h1 where c: "Chat env client msgs (h @ [EvRefineStep step snapshot]) = (r, h1)"
    by (metis surj_pair)
  from Chat_take[of "h @ [EvRefineStep step snapshot]" env client msgs] c
  have "take (length (h @ [EvRefineStep step snapshot])) h1 = h @ [EvRefineStep step snapshot]" by simp
  then obtain rest where h1: "h1 = (h @ [EvRefineStep step snapshot]) @ rest"
    by (metis append_take_drop_id)
  have "snd (RefineStep env client step snapshot h) = h1"
    using c unfolding RefineStep_def Let_def msgs_def
    by (simp split: sum.splits prod.splits option.splits)
  with h1 show ?thesis by simp
qed

lemma stepBody_extends:
  "\<exists>rest. snd (snd (snd (stepBody env client step (snapshot, rs, sc, h)))) = snd (executeStep env step h) @ rest"
proof -
  obtain r s err h1 where e: "executeStep env step h = ((r, s, err), h1)"
    by (metis prod_cases3 surj_pair)
  show ?thesis
  proof (cases err)
    case None
    with e show ?thesis by (simp add: stepBody_success recordStep_eq)
  next
    case (Some x)
    obtain rr h2 where rf: "RefineStep env client step snapshot h1 = (rr, h2)" by (metis surj_pair)
    from RefineStep_logged[of env client step snapshot h1] rf obtain rest1 where h2: "h2 = h1 @ rest1"
      by auto
    show ?thesis
    proof (cases rr)
      case (Inl re)
      with e Some rf h2 show ?thesis by (simp add: stepBody_refine_failed)
    next
      case (Inr refined)
      obtain r2 s2 err2 h3 where e2: "executeStep env refined h2 = ((r2, s2, err2), h3)"
        by (metis prod_cases3 surj_pair)
      from executeStep_extends[of env refined h2] e2 obtain rest2 where "h3 = h2 @ rest2"
        by auto
      with e Some rf h2 Inr e2 show ?thesis by (simp add: stepBody_refined recordStep_eq)
    qed
  qed
qed

lemma convertStepResults_fields:
  "map DRes_Success (convertStepResults rs t) = map Res_Success rs
   \<and> map DRes_Error (convertStepResults rs t) = map Res_Error rs
   \<and> length (convertStepResults rs t) = length rs"
proof -
  have "map DRes_Success (convertStepResults rs t) = map (Res_Success \<circ> snd) (enumerate 0 rs)"
    by (simp add: convertStepResults_def case_prod_unfold comp_def)
  also have "\<dots> = map Res_Success (map snd (enumerate 0 rs))"
    by (simp only: map_map)
  finally have a: "map DRes_Success (convertStepResults rs t) = map Res_Success rs"
    by (simp only: map_snd_enumerate)
  have "map DRes_Error (convertStepResults rs t) = map (Res_Error \<circ> snd) (enumerate 0 rs)"
    by (simp add: convertStepResults_def case_prod_unfold comp_def)
  also have "\<dots> = map Res_Error (map snd (enumerate 0 rs))"
    by (simp only: map_map)
  finally have b: "map DRes_Error (convertStepResults rs t) = map Res_Error rs"
    by (simp only: map_snd_enumerate)
  have c: "length (convertStepResults rs t) = length rs"
    by (simp add: convertStepResults_def)
  from a b c show ?thesis by simp
qed

lemma runSteps_completes:
  assumes "stepLoop env client (Plan_Steps plan) (snapshot, [], [], st_hist st) = (snapF, results, shots, hF)"
  shows "\<exists>tr. Task_Result (st_objs (snd (runSteps env p client t0 plan snapshot st)) p) = Some tr
           \<and> map DRes_Success (TR_Steps tr) = map Res_Success results
           \<and> map DRes_Error (TR_Steps tr) = map Res_Error results"
    and "Task_Status (st_objs (snd (runSteps env p client t0 plan snapshot st)) p) = TaskStatusCompleted"
    and "st_tasks st (Task_ID (st_objs st p)) \<noteq> None \<Longrightarrow> fst (runSteps env p client t0 plan snapshot st) = None"
  using assms
  by (auto simp: runSteps_def Let_def setTask_def Store_Update_def convertStepResults_fields
      split: prod.splits option.splits)

lemma demo_click_ok:
  "t \<noteq> ''#missing'' \<Longrightarrow>
   executeStep demoEnv (clickStep n t) h = ((okResult, None, None), h @ [EvClick t, EvSleep (500 * Millisecond)])"
  by (simp add: executeStep_def dispatchAction_def clickStep_def ActionNavigate_def ActionClick_def
      Click_def Sleep_def demoEnv_def okResult_def Let_def)

lemma demo_click_missing:
  "executeStep demoEnv (clickStep n ''#missing'') h =
     ((\<lparr>Res_Success = False, Res_Error = ''element not found'', Res_Screenshot = []\<rparr>, None,
       Some ''element not found''), h @ [EvClick ''#missing''])"
  by (simp add: executeStep_def dispatchAction_def clickStep_def ActionNavigate_def ActionClick_def
      Click_def demoEnv_def Let_def)

lemma demo_extract_refine: "extractJSON refineReply = refinedObject"
  by (simp add: extractJSON_def refineReply_def refinedObject_def)

lemma demo_found:
  "executeStep demoEnv refinedStep h = ((okResult, None, None), h @ [EvClick ''#found'', EvSleep (500 * Millisecond)])"
  by (simp add: executeStep_def dispatchAction_def refinedStep_def ActionNavigate_def ActionClick_def
      Click_def Sleep_def demoEnv_def okResult_def Let_def)

text \<open>
  The loop on a plan of three steps where the execution of the second step fails and the
  refinement succeeds: three results, the one at index 1 being the result of executing the
  refined step; and, for every plan, one result per step, in plan order.
\<close>

lemma stepLoop_refined_outcome:
  assumes first: "stepBody env client s1 (snap0, [], [], h0) = (snap1, rs1, sc1, h1)"
    and fails: "executeStep env s2 h1 = ((r, sc, Some e), h2)"
    and refines: "RefineStep env client s2 snap1 h2 = (Inr refined, h3)"
    and second: "executeStep env refined h3 = ((r2, sc2, err2), h4)"
  shows "length (fst (snd (stepLoop env client [s1, s2, s3] (snap0, [], [], h0)))) = 3
     \<and> fst (snd (stepLoop env client [s1, s2, s3] (snap0, [], [], h0))) ! 1 = r2
     \<and> stepBody env client s2 (snap1, rs1, sc1, h1) =
         (fst (TakeSnapshot env h4), rs1 @ [r2],
          (case sc2 of None \<Rightarrow> sc1 | Some x \<Rightarrow> sc1 @ [x]), h4 @ [EvTakeSnapshot])
     \<and> length (fst (snd (stepLoop env client steps (snapshot, rs, scs, h)))) = length rs + length steps
     \<and> take (length rs + length xs) (fst (snd (stepLoop env client (xs @ ys) (snapshot, rs, scs, h))))
         = fst (snd (stepLoop env client xs (snapshot, rs, scs, h)))"
proof -
  from stepBody_one_result[of env client s1 snap0 "[]" "[]" h0] first
  obtain r1 where rs1: "rs1 = [r1]" by auto
  have b2: "stepBody env client s2 (snap1, rs1, sc1, h1) =
         (fst (TakeSnapshot env h4), rs1 @ [r2],
          (case sc2 of None \<Rightarrow> sc1 | Some x \<Rightarrow> sc1 @ [x]), h4 @ [EvTakeSnapshot])"
    using stepBody_refined[OF fails refines second] by (simp add: recordStep_eq)
  from stepBody_one_result[of env client s3 "fst (TakeSnapshot env h4)" "rs1 @ [r2]"
      "(case sc2 of None \<Rightarrow> sc1 | Some x \<Rightarrow> sc1 @ [x])" "h4 @ [EvTakeSnapshot]"]
  obtain r3 where r3: "fst (snd (stepBody env client s3 (fst (TakeSnapshot env h4), rs1 @ [r2],
          (case sc2 of None \<Rightarrow> sc1 | Some x \<Rightarrow> sc1 @ [x]), h4 @ [EvTakeSnapshot]))) = (rs1 @ [r2]) @ [r3]"
    by blast
  have res: "fst (snd (stepLoop env client [s1, s2, s3] (snap0, [], [], h0))) = [r1, r2, r3]"
    using first b2 r3 rs1 by simp
  show ?thesis
    using res b2 stepLoop_length[of env client steps snapshot rs scs h]
      stepLoop_prefix[of rs xs env client ys snapshot scs h]
    by simp
qed

subsection \<open>Plan parsing\<close>

lemma scanJSON_no_brace:
  "CHR 0x7B \<notin> set pre \<Longrightarrow> CHR 0x7D \<notin> set pre \<Longrightarrow>
   scanJSON (pre @ rest) i start depth = scanJSON rest (i + int (length pre)) start depth"
  by (induction pre arbitrary: i) (auto simp: algebra_simps)

lemma scanJSON_closesAt:
  "closesAt cs d \<Longrightarrow> start \<noteq> -1 \<Longrightarrow>
   scanJSON (cs @ post) i start d = (start, i + int (length cs))"
  by (induction cs d arbitrary: i rule: closesAt.induct) (auto simp: algebra_simps split: if_splits)

lemma extractJSON_balanced:
  assumes "CHR 0x7B \<notin> set pre" "CHR 0x7D \<notin> set pre" "balancedObject body"
  shows "extractJSON (pre @ body @ post) = body"
proof -
  from assms(3) obtain cs where body: "body = CHR 0x7B # cs" and cl: "closesAt cs 1"
    by (auto simp: balancedObject_def split: list.splits)
  have "scanJSON (pre @ body @ post) 0 (-1) 0 = scanJSON (body @ post) (int (length pre)) (-1) 0"
    using scanJSON_no_brace[OF assms(1,2), of "body @ post" 0 "-1" 0] by simp
  also have "\<dots> = scanJSON (cs @ post) (int (length pre) + 1) (int (length pre)) 1"
    by (simp add: body)
  also have "\<dots> = (int (length pre), int (length pre) + 1 + int (length cs))"
    using scanJSON_closesAt[OF cl, of "int (length pre)" post "int (length pre) + 1"] by simp
  finally have sc: "scanJSON (pre @ body @ post) 0 (-1) 0 = (int (length pre), int (length pre) + 1 + int (length cs))" .
  have n: "nat (1 + int (length cs)) = Suc (length cs)" by simp
  show ?thesis
    by (simp add: extractJSON_def sc n) (simp add: body)
qed

lemma planObject_balanced: "balancedObject planObject"
  by (simp add: balancedObject_def planObject_def)

lemma extractJSON_planReply: "extractJSON planReply = planObject"
  by (simp add: extractJSON_def planReply_def planObject_def)

lemma extractJSON_strayReply: "extractJSON strayReply = strayReply"
  by (simp add: extractJSON_def strayReply_def planObject_def)

lemma planReply_not_object: "planReply \<noteq> planObject"
  by (simp add: planReply_def planObject_def)

lemma strayReply_not_object: "strayReply \<noteq> planObject"
  by (simp add: strayReply_def planObject_def)

lemma ParseTask_spec_example:
  "fst (ParseTask demoEnv goodClient demoRequest []) =
     Inr \<lparr>Plan_TaskID = ''t1'', Plan_Description = ''d'', Plan_Steps = []\<rparr>"
  by (simp add: ParseTask_def Chat_def goodClient_def OpenAI_Chat_def OpenAI_request_def Let_def
      demoEnv_def demoHttpDo_def demoConfig_def Header_Get_def Header_Set_def
      extractJSON_planReply planReply_not_object demoPlan_def)

text \<open>
  Claim C5 on the code. \<open>ParseTask\<close> does decode the reply first and the text returned
  by \<open>extractJSON\<close> second (lemma \<open>ParseTask_spec_example\<close> is the reply of the claim),
  and \<open>extractJSON\<close> returns the first balanced brace-delimited text when no brace precedes
  it (lemma \<open>extractJSON_balanced\<close>). A closing brace in the prose before the object breaks
  this: the depth counter goes to \<open>-1\<close>, the brace that closes the object brings it back to
  \<open>-1\<close> and never to \<open>0\<close>, and \<open>extractJSON\<close> returns the whole reply. For the reply
  \<open>Done } {"task_id":"t1","description":"d","steps":[]}\<close> the balanced object is there
  and decodes to a plan, yet \<open>ParseTask\<close> fails.
\<close>

theorem ParseTask_stray_brace_fails:
  "strayReply = ''Done } '' @ planObject
   \<and> balancedObject planObject
   \<and> json_UnmarshalPlan strayEnv planObject zero_TaskPlan =
       (None, \<lparr>Plan_TaskID = ''t1'', Plan_Description = ''d'', Plan_Steps = []\<rparr>)
   \<and> extractJSON strayReply = strayReply
   \<and> fst (ParseTask strayEnv goodClient demoRequest []) = Inl ''parse plan: invalid character''"
  by (simp add: ParseTask_def Chat_def goodClient_def OpenAI_Chat_def OpenAI_request_def Let_def
      strayEnv_def demoEnv_def demoConfig_def
      extractJSON_strayReply strayReply_not_object planObject_balanced demoPlan_def)
    (simp add: strayReply_def)

subsection \<open>Cancellation\<close>

lemma twoClicks_loop:
  "stepLoop demoEnv goodClient (Plan_Steps twoClicks) (demoSnapshot, [], [], demoHistory) =
     (fst (TakeSnapshot demoEnv (demoHistory @ [EvClick ''#first'', EvSleep (500 * Millisecond), EvTakeSnapshot,
                                               EvClick ''#third'', EvSleep (500 * Millisecond)])),
      [okResult, okResult], [],
      demoHistory @ [EvClick ''#first'', EvSleep (500 * Millisecond), EvTakeSnapshot,
                     EvClick ''#third'', EvSleep (500 * Millisecond), EvTakeSnapshot])"
  by (simp add: twoClicks_def stepBody_def demo_click_ok recordStep_eq)

lemma runSteps_history:
  "stepLoop env client (Plan_Steps plan) (snapshot, [], [], st_hist st) = (snapF, results, shots, hF) \<Longrightarrow>
   st_hist (snd (runSteps env p client t0 plan snapshot st)) =
     snd (generateDocuments env (st_objs st p) plan results (Out_Formats (Task_Output (st_objs st p))) [] hF)"
  by (auto simp: runSteps_def Let_def setTask_def Store_Update_def split: prod.splits option.splits)

lemma demo_markdown:
  "snd (generateDocuments demoEnv task plan results [''markdown''] [] h) = h @ [EvGenerate ''markdown'', EvUUID]"
  by (simp add: DocFormatMarkdown_def NewUUID_def demoEnv_def)

text \<open>
  Claim C4 on the code. The step loop never reads the task status. Here the cancel endpoint
  runs on a running task after planning and before the first step: it answers 200 and the
  shared task record has status \<open>cancelled\<close>. The remainder of \<open>ExecuteTask\<close> then
  executes both steps of the plan (the two clicks follow the navigation already in the
  history), returns no error and overwrites the status with \<open>completed\<close>.
\<close>

theorem cancelled_task_still_runs_steps:
  "fst (CancelTask ''task-1'' runningState) = 200
   \<and> Task_Status (st_objs (snd (CancelTask ''task-1'' runningState)) 0) = TaskStatusCancelled
   \<and> fst (runSteps demoEnv 0 goodClient 0 twoClicks demoSnapshot (snd (CancelTask ''task-1'' runningState))) = None
   \<and> filter isActionEvent
        (st_hist (snd (runSteps demoEnv 0 goodClient 0 twoClicks demoSnapshot
                         (snd (CancelTask ''task-1'' runningState))))) =
       [EvNavigate ''http://start.example'', EvClick ''#first'', EvClick ''#third'']
   \<and> Task_Status (st_objs (snd (runSteps demoEnv 0 goodClient 0 twoClicks demoSnapshot
                                  (snd (CancelTask ''task-1'' runningState)))) 0) = TaskStatusCompleted"
proof -
  let ?st = "snd (CancelTask ''task-1'' runningState)"
  have c: "CancelTask ''task-1'' runningState =
      (200, runningState\<lparr>st_objs := (st_objs runningState)
                (0 := (st_objs runningState 0)\<lparr>Task_Status := TaskStatusCancelled\<rparr>)\<rparr>)"
    by (simp add: CancelTask_def UpdateStatus_def setTask_def runningState_def)
  have code: "fst (CancelTask ''task-1'' runningState) = 200"
    and cancelled: "Task_Status (st_objs ?st 0) = TaskStatusCancelled"
    and hist: "st_hist ?st = demoHistory"
    and stored: "st_tasks ?st (Task_ID (st_objs ?st 0)) \<noteq> None"
    and formats: "Out_Formats (Task_Output (st_objs ?st 0)) = [''markdown'']"
    unfolding c by (simp_all add: runningState_def demoTask_def)
  have loop: "stepLoop demoEnv goodClient (Plan_Steps twoClicks) (demoSnapshot, [], [], st_hist ?st) =
     (fst (TakeSnapshot demoEnv (demoHistory @ [EvClick ''#first'', EvSleep (500 * Millisecond), EvTakeSnapshot,
                                               EvClick ''#third'', EvSleep (500 * Millisecond)])),
      [okResult, okResult], [],
      demoHistory @ [EvClick ''#first'', EvSleep (500 * Millisecond), EvTakeSnapshot,
                     EvClick ''#third'', EvSleep (500 * Millisecond), EvTakeSnapshot])"
    unfolding hist by (rule twoClicks_loop)
  have events: "filter isActionEvent (st_hist (snd (runSteps demoEnv 0 goodClient 0 twoClicks demoSnapshot ?st))) =
       [EvNavigate ''http://start.example'', EvClick ''#first'', EvClick ''#third'']"
    unfolding runSteps_history[OF loop] formats demo_markdown
    by (simp add: demoHistory_def)
  show ?thesis
    using code cancelled events runSteps_completes(2)[OF loop, of 0 0]
      runSteps_completes(3)[OF loop stored, of 0]
    by blast
qed

subsection \<open>Refinement within a whole run\<close>

text \<open>
  A run of \<open>ExecuteTask\<close> that gets through its prologue is the step loop on the parsed
  plan followed by the deferred \<open>Close\<close>; the result it stores has one entry per result
  of the loop, with the same success flags and error texts.
\<close>

lemma Store_Update_ok:
  "Store_Update p s = (None, s2) \<Longrightarrow>
   st_objs s2 = st_objs s \<and> st_hist s2 = st_hist s \<and> st_tasks s2 (Task_ID (st_objs s p)) \<noteq> None"
  by (auto simp: Store_Update_def split: option.splits)

lemma ExecuteTask_enters_loop:
  assumes upd: "Store_Update p (setTask p (\<lambda>t. t\<lparr>Task_Status := TaskStatusRunning,
                      Task_UpdatedAt := now env st\<rparr>) st) = (None, st2)"
    and cli: "NewClient (Task_LLM (st_objs st2 p)) = Inr client"
    and st3: "st3 = setTask p (\<lambda>t. t\<lparr>Task_LLM := clientConfig client\<rparr>) st2"
    and con: "Connect env (st_hist st3) = (None, hc)"
    and opn: "openTarget env (st_objs st3 p) hc = (None, ho)"
    and snp: "TakeSnapshot env (Sleep (2 * Second) ho) = (snap0, hs)"
    and prs: "ParseTask env client
               \<lparr>PReq_UserInput = Task_Description (st_objs st3 p),
                 PReq_TargetURL = Task_TargetURL (st_objs st3 p),
                 PReq_PageSnapshot = Some snap0\<rparr> hs = (Inr plan, hp)"
  shows "ExecuteTask env p st =
     (fst (runSteps env p client (now env st2) plan snap0 (st3\<lparr>st_hist := hp\<rparr>)),
      (snd (runSteps env p client (now env st2) plan snap0 (st3\<lparr>st_hist := hp\<rparr>)))
        \<lparr>st_hist := Close env (st_hist (snd (runSteps env p client (now env st2) plan snap0
                                              (st3\<lparr>st_hist := hp\<rparr>))))\<rparr>)"
proof -
  have rc: "runConnected env p client (now env st2) (st3\<lparr>st_hist := hc\<rparr>) =
      runSteps env p client (now env st2) plan snap0 (st3\<lparr>st_hist := hp\<rparr>)"
    using opn snp prs by (simp add: runConnected_def Let_def)
  show ?thesis
    using upd cli con[unfolded st3] rc[unfolded st3] unfolding st3
    by (simp add: ExecuteTask_def Let_def case_prod_unfold)
qed

lemma generateDocuments_extends:
  "\<exists>rest. snd (generateDocuments env task plan results formats docs h) = h @ rest"
proof (induction formats arbitrary: docs h)
  case Nil
  then show ?case by simp
next
  case (Cons f fs)
  show ?case
  proof (cases "f = DocFormatMarkdown \<or> f = DocFormatHTML")
    case False
    then show ?thesis using Cons.IH[of docs h] by simp
  next
    case True
    show ?thesis
    proof (cases "doc_Generate env f task plan results")
      case (Inl e)
      from Cons.IH[of docs "h @ [EvGenerate f]"] obtain rest where
        "snd (generateDocuments env task plan results fs docs (h @ [EvGenerate f])) = (h @ [EvGenerate f]) @ rest"
        by blast
      with True Inl show ?thesis by auto
    next
      case (Inr content)
      let ?d = "docs @ [\<lparr>Doc_ID = sys_UUID env (h @ [EvGenerate f]), Doc_Format = f, Doc_Content = content,
           Doc_Size = int (length content), Doc_CreatedAt = sys_Now env (h @ [EvGenerate f, EvUUID])\<rparr>]"
      from Cons.IH[of ?d "h @ [EvGenerate f, EvUUID]"] obtain rest where
        "snd (generateDocuments env task plan results fs ?d (h @ [EvGenerate f, EvUUID])) =
           (h @ [EvGenerate f, EvUUID]) @ rest"
        by blast
      with True Inr show ?thesis by (auto simp: NewUUID_def)
    qed
  qed
qed

lemma runSteps_outcome:
  assumes loop: "stepLoop env client (Plan_Steps plan) (snapshot, [], [], st_hist st) = (snapF, results, shots, hF)"
  shows "\<exists>tr rest. Task_Result (st_objs (snd (runSteps env p client t0 plan snapshot st)) p) = Some tr
           \<and> map DRes_Success (TR_Steps tr) = map Res_Success results
           \<and> map DRes_Error (TR_Steps tr) = map Res_Error results
           \<and> length (TR_Steps tr) = length results
           \<and> st_hist (snd (runSteps env p client t0 plan snapshot st)) = hF @ rest"
proof -
  from generateDocuments_extends[of env "st_objs st p" plan results "Out_Formats (Task_Output (st_objs st p))" "[]" hF]
  obtain rest where g: "snd (generateDocuments env (st_objs st p) plan results
      (Out_Formats (Task_Output (st_objs st p))) [] hF) = hF @ rest" by blast
  show ?thesis
    using loop g
    by (auto simp: runSteps_def Let_def setTask_def Store_Update_def convertStepResults_fields
        split: prod.splits option.splits)
qed

lemma convertStepResults_order:
  "map DRes_Order (convertStepResults rs t) = map (\<lambda>i. int i + 1) [0..<length rs]"
proof -
  have "map DRes_Order (convertStepResults rs t) = map ((\<lambda>i. int i + 1) \<circ> fst) (enumerate 0 rs)"
    by (simp add: convertStepResults_def case_prod_unfold comp_def)
  also have "\<dots> = map (\<lambda>i. int i + 1) (map fst (enumerate 0 rs))"
    by (simp only: map_map)
  finally show ?thesis
    by (simp only: map_fst_enumerate add_0)
qed

lemma runSteps_order:
  assumes loop: "stepLoop env client (Plan_Steps plan) (snapshot, [], [], st_hist st) = (snapF, results, shots, hF)"
  shows "\<exists>tr. Task_Result (st_objs (snd (runSteps env p client t0 plan snapshot st)) p) = Some tr
           \<and> map DRes_Order (TR_Steps tr) = map (\<lambda>i. int i + 1) [0..<length results]"
  using loop
  by (auto simp: runSteps_def Let_def setTask_def Store_Update_def convertStepResults_order
      split: prod.splits option.splits)

lemma stepLoop3_history:
  "\<exists>rest. snd (snd (snd (stepLoop env client [s1, s2, s3] vars))) =
      snd (snd (snd (stepBody env client s2 (stepBody env client s1 vars)))) @ rest"
proof -
  obtain a b c d where v: "stepBody env client s2 (stepBody env client s1 vars) = (a, b, c, d)"
    by (metis prod_cases4)
  from stepBody_extends[of env client s3 a b c d] executeStep_extends[of env s3 d]
  show ?thesis
    using v by (auto simp: append_assoc)
qed

text \<open>
  Claim C1. Take a run of \<open>ExecuteTask\<close> that reaches the step loop (the status update is
  stored, the client is created, the browser connects, the target opens and \<open>ParseTask\<close>
  returns a plan) with a plan of three steps, where the execution of the second step fails
  and \<open>RefineStep\<close> returns a refined step without error. Then the result that
  \<open>ExecuteTask\<close> stores in the task has three step results, numbered 1, 2, 3 in plan
  order, and the one at index 1 carries the success flag and the error text of the execution
  of the refined step, whatever that execution returned, not those of the original failure.
  The iteration of the second step consists of the failed execution, the refinement, one
  execution of the refined step and the snapshot, and nothing more: the refined step is
  executed once and never retried, and the history of the run goes on from that snapshot.
  For every plan and every loop state the loop adds exactly one result per step, and the
  results after the first steps of the plan are a prefix of the final results.
\<close>

theorem ExecuteTask_reports_refined_outcome:
  assumes upd: "Store_Update p (setTask p (\<lambda>t. t\<lparr>Task_Status := TaskStatusRunning,
                      Task_UpdatedAt := now env st\<rparr>) st) = (None, st2)"
    and cli: "NewClient (Task_LLM (st_objs st2 p)) = Inr client"
    and st3: "st3 = setTask p (\<lambda>t. t\<lparr>Task_LLM := clientConfig client\<rparr>) st2"
    and con: "Connect env (st_hist st3) = (None, hc)"
    and opn: "openTarget env (st_objs st3 p) hc = (None, ho)"
    and snp: "TakeSnapshot env (Sleep (2 * Second) ho) = (snap0, hs)"
    and prs: "ParseTask env client
               \<lparr>PReq_UserInput = Task_Description (st_objs st3 p),
                 PReq_TargetURL = Task_TargetURL (st_objs st3 p),
                 PReq_PageSnapshot = Some snap0\<rparr> hs = (Inr plan, hp)"
    and steps: "Plan_Steps plan = [s1, s2, s3]"
    and first: "stepBody env client s1 (snap0, [], [], hp) = (snap1, rs1, sc1, h1)"
    and fails: "executeStep env s2 h1 = ((r, sc, Some e), h2)"
    and refines: "RefineStep env client s2 snap1 h2 = (Inr refined, h3)"
    and second: "executeStep env refined h3 = ((r2, sc2, err2), h4)"
  shows "(case Task_Result (st_objs (snd (ExecuteTask env p st)) p) of
            None \<Rightarrow> False
          | Some tr \<Rightarrow> length (TR_Steps tr) = 3
              \<and> DRes_Success (TR_Steps tr ! 1) = Res_Success r2
              \<and> DRes_Error (TR_Steps tr ! 1) = Res_Error r2
              \<and> map DRes_Order (TR_Steps tr) = [1, 2, 3])
     \<and> stepBody env client s2 (snap1, rs1, sc1, h1) =
         (fst (TakeSnapshot env h4), rs1 @ [r2],
          (case sc2 of None \<Rightarrow> sc1 | Some x \<Rightarrow> sc1 @ [x]), h4 @ [EvTakeSnapshot])
     \<and> (\<exists>post. st_hist (snd (ExecuteTask env p st)) = h4 @ EvTakeSnapshot # post)
     \<and> length (fst (snd (stepLoop env client steps (snapshot, rs, scs, h)))) = length rs + length steps
     \<and> take (length rs + length xs) (fst (snd (stepLoop env client (xs @ ys) (snapshot, rs, scs, h))))
         = fst (snd (stepLoop env client xs (snapshot, rs, scs, h)))"
proof -
  let ?R = "runSteps env p client (now env st2) plan snap0 (st3\<lparr>st_hist := hp\<rparr>)"
  have E: "ExecuteTask env p st = (fst ?R, (snd ?R)\<lparr>st_hist := Close env (st_hist (snd ?R))\<rparr>)"
    by (rule ExecuteTask_enters_loop[OF upd cli st3 con opn snp prs])
  note L = stepLoop_refined_outcome[OF first fails refines second, of s3]
  obtain snapF results shots hF where
    loop: "stepLoop env client (Plan_Steps plan) (snap0, [], [], st_hist (st3\<lparr>st_hist := hp\<rparr>)) =
             (snapF, results, shots, hF)"
    by (metis prod_cases4)
  then have loop3: "stepLoop env client [s1, s2, s3] (snap0, [], [], hp) = (snapF, results, shots, hF)"
    by (simp add: steps)
  have len: "length results = 3" and r1: "results ! 1 = r2"
    and b2: "stepBody env client s2 (snap1, rs1, sc1, h1) =
         (fst (TakeSnapshot env h4), rs1 @ [r2],
          (case sc2 of None \<Rightarrow> sc1 | Some x \<Rightarrow> sc1 @ [x]), h4 @ [EvTakeSnapshot])"
    using L loop3 by simp_all
  from stepLoop3_history[of env client s1 s2 s3 "(snap0, [], [], hp)"] first b2 loop3
  obtain rest1 where hF: "hF = (h4 @ [EvTakeSnapshot]) @ rest1" by auto
  from runSteps_outcome[OF loop, of p "now env st2"] obtain tr rest where
    tr: "Task_Result (st_objs (snd ?R) p) = Some tr"
    and suc: "map DRes_Success (TR_Steps tr) = map Res_Success results"
    and err: "map DRes_Error (TR_Steps tr) = map Res_Error results"
    and ln: "length (TR_Steps tr) = length results"
    and hist: "st_hist (snd ?R) = hF @ rest"
    by blast
  from runSteps_order[OF loop, of p "now env st2"] tr
  have ord: "map DRes_Order (TR_Steps tr) = map (\<lambda>i. int i + 1) [0..<length results]" by simp
  have "DRes_Success (TR_Steps tr ! 1) = map DRes_Success (TR_Steps tr) ! 1"
    using ln len by simp
  then have s1: "DRes_Success (TR_Steps tr ! 1) = Res_Success r2"
    using suc len r1 by simp
  have "DRes_Error (TR_Steps tr ! 1) = map DRes_Error (TR_Steps tr) ! 1"
    using ln len by simp
  then have e1: "DRes_Error (TR_Steps tr ! 1) = Res_Error r2"
    using err len r1 by simp
  have o1: "map DRes_Order (TR_Steps tr) = [1, 2, 3]"
    using ord len by (simp add: upt_rec)
  have res: "Task_Result (st_objs (snd (ExecuteTask env p st)) p) = Some tr"
    using tr by (simp add: E)
  have h: "st_hist (snd (ExecuteTask env p st)) = h4 @ EvTakeSnapshot # (rest1 @ rest @ [EvClose])"
    using hist hF by (simp add: E Close_def)
  show ?thesis
    using res ln len s1 e1 o1 b2 h stepLoop_length[of env client steps snapshot rs scs h]
      stepLoop_prefix[of rs xs env client ys snapshot scs h]
    by simp
qed

text \<open>
  Claim C2. Take a run of \<open>ExecuteTask\<close> that reaches the step loop with a plan of three
  steps, where the execution of the second step fails with error text \<open>e\<close> and
  \<open>RefineStep\<close> itself returns an error. Then \<open>ExecuteTask\<close> returns no error and
  leaves the task \<open>completed\<close>: the refinement error does not abort it. The result stored
  in the task has three step results, and the one at index 1 has \<open>Success = false\<close> and the
  error text \<open>e\<close> of the step execution, not the refinement error. The third step is still
  executed: its execution starts at the history the failed refinement left, and the history
  of the run contains it.
\<close>

theorem ExecuteTask_keeps_original_error:
  assumes upd: "Store_Update p (setTask p (\<lambda>t. t\<lparr>Task_Status := TaskStatusRunning,
                      Task_UpdatedAt := now env st\<rparr>) st) = (None, st2)"
    and cli: "NewClient (Task_LLM (st_objs st2 p)) = Inr client"
    and st3: "st3 = setTask p (\<lambda>t. t\<lparr>Task_LLM := clientConfig client\<rparr>) st2"
    and con: "Connect env (st_hist st3) = (None, hc)"
    and opn: "openTarget env (st_objs st3 p) hc = (None, ho)"
    and snp: "TakeSnapshot env (Sleep (2 * Second) ho) = (snap0, hs)"
    and prs: "ParseTask env client
               \<lparr>PReq_UserInput = Task_Description (st_objs st3 p),
                 PReq_TargetURL = Task_TargetURL (st_objs st3 p),
                 PReq_PageSnapshot = Some snap0\<rparr> hs = (Inr plan, hp)"
    and steps: "Plan_Steps plan = [s1, s2, s3]"
    and first: "stepBody env client s1 (snap0, [], [], hp) = (snap1, rs1, sc1, h1)"
    and fails: "executeStep env s2 h1 = ((r, sc, Some e), h2)"
    and refines: "RefineStep env client s2 snap1 h2 = (Inl refineErr, h3)"
  shows "fst (ExecuteTask env p st) = None
     \<and> Task_Status (st_objs (snd (ExecuteTask env p st)) p) = TaskStatusCompleted
     \<and> (case Task_Result (st_objs (snd (ExecuteTask env p st)) p) of
            None \<Rightarrow> False
          | Some tr \<Rightarrow> length (TR_Steps tr) = 3
              \<and> DRes_Success (TR_Steps tr ! 1) = False
              \<and> DRes_Error (TR_Steps tr ! 1) = e)
     \<and> (\<exists>post. st_hist (snd (ExecuteTask env p st)) = snd (executeStep env s3 h3) @ post)
     \<and> stepBody env client s2 (snap1, rs1, sc1, h1) =
         (snap1, rs1 @ [\<lparr>Res_Success = False, Res_Error = e, Res_Screenshot = []\<rparr>], sc1, h3)"
proof -
  let ?R = "runSteps env p client (now env st2) plan snap0 (st3\<lparr>st_hist := hp\<rparr>)"
  let ?failed = "\<lparr>Res_Success = False, Res_Error = e, Res_Screenshot = []\<rparr>"
  have E: "ExecuteTask env p st = (fst ?R, (snd ?R)\<lparr>st_hist := Close env (st_hist (snd ?R))\<rparr>)"
    by (rule ExecuteTask_enters_loop[OF upd cli st3 con opn snp prs])
  from Store_Update_ok[OF upd]
  have stored: "st_tasks (st3\<lparr>st_hist := hp\<rparr>) (Task_ID (st_objs (st3\<lparr>st_hist := hp\<rparr>) p)) \<noteq> None"
    by (simp add: st3 setTask_def)
  have b2: "stepBody env client s2 (snap1, rs1, sc1, h1) = (snap1, rs1 @ [?failed], sc1, h3)"
    using stepBody_refine_failed[OF fails refines] by simp
  from stepBody_one_result[of env client s1 snap0 "[]" "[]" hp] first
  obtain r1 where rs1: "rs1 = [r1]" by auto
  obtain snapF results shots hF where
    loop: "stepLoop env client (Plan_Steps plan) (snap0, [], [], st_hist (st3\<lparr>st_hist := hp\<rparr>)) =
             (snapF, results, shots, hF)"
    by (metis prod_cases4)
  then have loop3: "stepBody env client s3 (snap1, rs1 @ [?failed], sc1, h3) = (snapF, results, shots, hF)"
    by (simp add: steps first b2)
  from stepBody_one_result[of env client s3 snap1 "rs1 @ [?failed]" sc1 h3] loop3
  obtain r3 where results: "results = [r1, ?failed, r3]" by (auto simp: rs1)
  from stepBody_extends[of env client s3 snap1 "rs1 @ [?failed]" sc1 h3] loop3
  obtain rest1 where hF: "hF = snd (executeStep env s3 h3) @ rest1" by auto
  from runSteps_outcome[OF loop, of p "now env st2"] obtain tr rest where
    tr: "Task_Result (st_objs (snd ?R) p) = Some tr"
    and suc: "map DRes_Success (TR_Steps tr) = map Res_Success results"
    and err: "map DRes_Error (TR_Steps tr) = map Res_Error results"
    and ln: "length (TR_Steps tr) = length results"
    and hist: "st_hist (snd ?R) = hF @ rest"
    by blast
  have "DRes_Success (TR_Steps tr ! 1) = map DRes_Success (TR_Steps tr) ! 1"
    using ln results by simp
  then have s1: "DRes_Success (TR_Steps tr ! 1) = False"
    using suc results by simp
  have "DRes_Error (TR_Steps tr ! 1) = map DRes_Error (TR_Steps tr) ! 1"
    using ln results by simp
  then have e1: "DRes_Error (TR_Steps tr ! 1) = e"
    using err results by simp
  have res: "Task_Result (st_objs (snd (ExecuteTask env p st)) p) = Some tr"
    using tr by (simp add: E)
  have h: "st_hist (snd (ExecuteTask env p st)) = snd (executeStep env s3 h3) @ (rest1 @ rest @ [EvClose])"
    using hist hF by (simp add: E Close_def)
  have ok: "fst (ExecuteTask env p st) = None"
    using runSteps_completes(3)[OF loop stored, of "now env st2"] by (simp add: E)
  have completed: "Task_Status (st_objs (snd (ExecuteTask env p st)) p) = TaskStatusCompleted"
    using runSteps_completes(2)[OF loop, of p "now env st2"] by (simp add: E)
  show ?thesis
    using ok completed res ln results s1 e1 h b2 by simp
qed

subsection \<open>Runs in the scripted environments\<close>

text \<open>
  The scripted environments differ from \<open>demoEnv\<close> in the transport and the plan
  decoder only, so the browser behaves as there. With the task \<open>demoTask\<close> the prologue
  of \<open>ExecuteTask\<close> succeeds and the loop starts at six events of history.
\<close>

lemma scripted_Navigate: "Navigate (scriptedEnv ptext pl rb) u h = Navigate demoEnv u h"
  by (simp add: Navigate_def scriptedEnv_def)

lemma scripted_Click: "Click (scriptedEnv ptext pl rb) s h = Click demoEnv s h"
  by (simp add: Click_def scriptedEnv_def)

lemma scripted_Fill: "Fill (scriptedEnv ptext pl rb) s v h = Fill demoEnv s v h"
  by (simp add: Fill_def scriptedEnv_def)

lemma scripted_Hover: "Hover (scriptedEnv ptext pl rb) s h = Hover demoEnv s h"
  by (simp add: Hover_def scriptedEnv_def)

lemma scripted_Select: "Select (scriptedEnv ptext pl rb) s v h = Select demoEnv s v h"
  by (simp add: Select_def scriptedEnv_def)

lemma scripted_WaitForSelector:
  "WaitForSelector (scriptedEnv ptext pl rb) s d h = WaitForSelector demoEnv s d h"
  by (simp add: WaitForSelector_def scriptedEnv_def)

lemma scripted_TakeScreenshot:
  "TakeScreenshot (scriptedEnv ptext pl rb) opts h = TakeScreenshot demoEnv opts h"
  by (simp add: TakeScreenshot_def scriptedEnv_def)

lemma scripted_NewUUID: "NewUUID (scriptedEnv ptext pl rb) h = NewUUID demoEnv h"
  by (simp add: NewUUID_def scriptedEnv_def)

lemma scripted_Now: "sys_Now (scriptedEnv ptext pl rb) h = sys_Now demoEnv h"
  by (simp add: scriptedEnv_def)

lemma scripted_dispatchAction:
  "dispatchAction (scriptedEnv ptext pl rb) step h = dispatchAction demoEnv step h"
  unfolding dispatchAction_def scripted_Navigate scripted_Click scripted_Fill scripted_Hover
    scripted_Select scripted_WaitForSelector
  by (rule refl)

lemma scripted_executeStep:
  "executeStep (scriptedEnv ptext pl rb) step h = executeStep demoEnv step h"
  unfolding executeStep_def scripted_dispatchAction scripted_TakeScreenshot scripted_NewUUID
    scripted_Now
  by (rule refl)

lemma scripted_TakeSnapshot:
  "TakeSnapshot (scriptedEnv ptext pl rb) h = TakeSnapshot demoEnv h"
  by (simp add: TakeSnapshot_def scriptedEnv_def)

lemma demo_snapshot_start:
  "lastNavigated h = ''http://start.example'' \<Longrightarrow>
   TakeSnapshot demoEnv h = (startPage (int (length h)), h @ [EvTakeSnapshot])"
  by (simp add: TakeSnapshot_def demoEnv_def startPage_def)

lemma scripted_ParseTask:
  "\<exists>q. ParseTask (scriptedEnv ptext pl rb) goodClient req h = (Inr pl, h @ [EvParseTask req, EvHttpDo q])"
  by (simp add: ParseTask_def Chat_def goodClient_def OpenAI_Chat_def Let_def scriptedEnv_def demoEnv_def)

lemma extractJSON_sorry: "extractJSON ''Sorry, no idea'' = ''Sorry, no idea''"
  by (simp add: extractJSON_def)

lemma scripted_refine_bad:
  "\<exists>q. RefineStep (scriptedEnv ptext pl ''Sorry, no idea'') goodClient step snap h =
     (Inl ''parse refined step: invalid character'', h @ [EvRefineStep step snap, EvHttpDo q])"
  by (simp add: RefineStep_def Chat_def goodClient_def OpenAI_Chat_def Let_def scriptedEnv_def demoEnv_def
      extractJSON_sorry refinedObject_def)

lemma scripted_refine_good:
  "\<exists>q. RefineStep (scriptedEnv ptext pl refineReply) goodClient step snap h =
     (Inr refinedStep, h @ [EvRefineStep step snap, EvHttpDo q])"
  by (simp add: RefineStep_def Chat_def goodClient_def OpenAI_Chat_def Let_def scriptedEnv_def demoEnv_def
      demo_extract_refine)

lemma scripted_prologue:
  "\<exists>st2 q.
     Store_Update 0 (setTask 0 (\<lambda>t. t\<lparr>Task_Status := TaskStatusRunning,
                      Task_UpdatedAt := now (scriptedEnv ptext pl rb) demoState\<rparr>) demoState) = (None, st2)
   \<and> NewClient (Task_LLM (st_objs st2 0)) = Inr goodClient
   \<and> Connect (scriptedEnv ptext pl rb) (st_hist (setTask 0 (\<lambda>t. t\<lparr>Task_LLM := clientConfig goodClient\<rparr>) st2))
       = (None, [EvConnect])
   \<and> openTarget (scriptedEnv ptext pl rb) (st_objs (setTask 0 (\<lambda>t. t\<lparr>Task_LLM := clientConfig goodClient\<rparr>) st2) 0)
       [EvConnect] = (None, [EvConnect, EvNavigate ''http://start.example''])
   \<and> TakeSnapshot (scriptedEnv ptext pl rb) (Sleep (2 * Second) [EvConnect, EvNavigate ''http://start.example''])
       = (startPage 3, [EvConnect, EvNavigate ''http://start.example'', EvSleep (2 * Second), EvTakeSnapshot])
   \<and> ParseTask (scriptedEnv ptext pl rb) goodClient
        \<lparr>PReq_UserInput = Task_Description (st_objs (setTask 0 (\<lambda>t. t\<lparr>Task_LLM := clientConfig goodClient\<rparr>) st2) 0),
          PReq_TargetURL = Task_TargetURL (st_objs (setTask 0 (\<lambda>t. t\<lparr>Task_LLM := clientConfig goodClient\<rparr>) st2) 0),
          PReq_PageSnapshot = Some (startPage 3)\<rparr>
        [EvConnect, EvNavigate ''http://start.example'', EvSleep (2 * Second), EvTakeSnapshot]
       = (Inr pl, [EvConnect, EvNavigate ''http://start.example'', EvSleep (2 * Second), EvTakeSnapshot,
                   EvParseTask \<lparr>PReq_UserInput = ''demo'', PReq_TargetURL = ''http://start.example'',
                                 PReq_PageSnapshot = Some (startPage 3)\<rparr>, EvHttpDo q])
   \<and> Out_Formats (Task_Output (st_objs (setTask 0 (\<lambda>t. t\<lparr>Task_LLM := clientConfig goodClient\<rparr>) st2) 0))
       = [''markdown'']"
proof -
  let ?E = "scriptedEnv ptext pl rb"
  let ?st2 = "(setTask 0 (\<lambda>t. t\<lparr>Task_Status := TaskStatusRunning,
                      Task_UpdatedAt := now ?E demoState\<rparr>) demoState)
                \<lparr>st_tasks := [''task-1'' \<mapsto> 0]\<rparr>"
  let ?st3 = "setTask 0 (\<lambda>t. t\<lparr>Task_LLM := clientConfig goodClient\<rparr>) ?st2"
  have upd: "Store_Update 0 (setTask 0 (\<lambda>t. t\<lparr>Task_Status := TaskStatusRunning,
                      Task_UpdatedAt := now ?E demoState\<rparr>) demoState) = (None, ?st2)"
    by (simp add: Store_Update_def setTask_def demoState_def demoTask_def)
  have cli: "NewClient (Task_LLM (st_objs ?st2 0)) = Inr goodClient"
    by (simp add: setTask_def demoState_def demoTask_def NewClient_def NewOpenAICompatibleClient_def
        goodClient_def demoConfig_def LLMProviderAnthropic_def LLMProviderOpenAI_def Let_def)
  have task: "Task_Description (st_objs ?st3 0) = ''demo''"
    "Task_TargetURL (st_objs ?st3 0) = ''http://start.example''"
    "Task_Auth (st_objs ?st3 0) = None"
    "Out_Formats (Task_Output (st_objs ?st3 0)) = [''markdown'']"
    "st_hist ?st3 = []"
    by (simp_all add: setTask_def demoState_def demoTask_def)
  have con: "Connect ?E (st_hist ?st3) = (None, [EvConnect])"
    unfolding task by (simp add: Connect_def scriptedEnv_def demoEnv_def)
  have opn: "openTarget ?E (st_objs ?st3 0) [EvConnect] = (None, [EvConnect, EvNavigate ''http://start.example''])"
    by (simp add: openTarget_def task) (simp add: Navigate_def scriptedEnv_def demoEnv_def)
  have snp: "TakeSnapshot ?E (Sleep (2 * Second) [EvConnect, EvNavigate ''http://start.example''])
       = (startPage 3, [EvConnect, EvNavigate ''http://start.example'', EvSleep (2 * Second), EvTakeSnapshot])"
    by (simp add: scripted_TakeSnapshot Sleep_def demo_snapshot_start lastNavigated_def)
  from scripted_ParseTask[of ptext pl rb "\<lparr>PReq_UserInput = ''demo'', PReq_TargetURL = ''http://start.example'',
                                 PReq_PageSnapshot = Some (startPage 3)\<rparr>"
      "[EvConnect, EvNavigate ''http://start.example'', EvSleep (2 * Second), EvTakeSnapshot]"]
  obtain q where prs: "ParseTask ?E goodClient
        \<lparr>PReq_UserInput = ''demo'', PReq_TargetURL = ''http://start.example'',
                                 PReq_PageSnapshot = Some (startPage 3)\<rparr>
        [EvConnect, EvNavigate ''http://start.example'', EvSleep (2 * Second), EvTakeSnapshot]
       = (Inr pl, [EvConnect, EvNavigate ''http://start.example'', EvSleep (2 * Second), EvTakeSnapshot,
                   EvParseTask \<lparr>PReq_UserInput = ''demo'', PReq_TargetURL = ''http://start.example'',
                                 PReq_PageSnapshot = Some (startPage 3)\<rparr>, EvHttpDo q])"
    by auto
  show ?thesis
    apply (rule exI[of _ ?st2], rule exI[of _ q])
    using upd cli con opn snp prs task(4) unfolding task(1,2)
    by blast
qed

lemma scripted_click_ok:
  "tg \<noteq> ''#missing'' \<Longrightarrow>
   executeStep (scriptedEnv ptext pl rb) (clickStep n tg) h =
     ((okResult, None, None), h @ [EvClick tg, EvSleep (500 * Millisecond)])"
  by (simp add: scripted_executeStep demo_click_ok)

lemma scripted_click_missing:
  "executeStep (scriptedEnv ptext pl rb) (clickStep n ''#missing'') h =
     ((\<lparr>Res_Success = False, Res_Error = ''element not found'', Res_Screenshot = []\<rparr>, None,
       Some ''element not found''), h @ [EvClick ''#missing''])"
  by (simp add: scripted_executeStep demo_click_missing)

lemma scripted_found:
  "executeStep (scriptedEnv ptext pl rb) refinedStep h =
     ((okResult, None, None), h @ [EvClick ''#found'', EvSleep (500 * Millisecond)])"
  by (simp add: scripted_executeStep demo_found)

lemma scripted_slow:
  "executeStep (scriptedEnv ptext pl rb) (slowStep\<lparr>Step_Order := 2\<rparr>) h =
     ((\<lparr>Res_Success = False, Res_Error = ''Timeout 30000ms exceeded'', Res_Screenshot = []\<rparr>, None,
       Some ''Timeout 30000ms exceeded''), h @ [EvNavigate ''http://slow.example''])"
  unfolding scripted_executeStep
  by (simp add: executeStep_def dispatchAction_def slowStep_def ActionNavigate_def
      Navigate_def demoEnv_def Let_def)

lemma scripted_markdown:
  "snd (generateDocuments (scriptedEnv ptext pl rb) task plan results [''markdown''] [] h) =
     h @ [EvGenerate ''markdown'', EvUUID]"
  by (simp add: DocFormatMarkdown_def NewUUID_def scriptedEnv_def demoEnv_def)

lemma scripted_first:
  "stepBody (scriptedEnv ptext pl rb) goodClient (clickStep 1 ''#first'')
     (startPage 3, [], [],
      [EvConnect, EvNavigate ''http://start.example'', EvSleep (2 * Second), EvTakeSnapshot, EvParseTask req, EvHttpDo q]) =
     (startPage 8, [okResult], [],
      [EvConnect, EvNavigate ''http://start.example'', EvSleep (2 * Second), EvTakeSnapshot, EvParseTask req, EvHttpDo q,
       EvClick ''#first'', EvSleep (500 * Millisecond), EvTakeSnapshot])"
  by (simp add: stepBody_def scripted_click_ok recordStep_eq scripted_TakeSnapshot demo_snapshot_start
      lastNavigated_def)

theorem ExecuteTask_reports_refined_outcome_witness:
  "(case Task_Result (st_objs (snd (ExecuteTask refiningEnv 0 demoState)) 0) of
      None \<Rightarrow> False
    | Some tr \<Rightarrow> length (TR_Steps tr) = 3
        \<and> DRes_Success (TR_Steps tr ! 1) = True
        \<and> DRes_Error (TR_Steps tr ! 1) = []
        \<and> map DRes_Order (TR_Steps tr) = [1, 2, 3])
   \<and> EvClick ''#found'' \<in> set (st_hist (snd (ExecuteTask refiningEnv 0 demoState)))"
proof -
  let ?E = "scriptedEnv stepsObject threeSteps refineReply"
  from scripted_prologue[of stepsObject threeSteps refineReply] obtain st2 q where
    upd: "Store_Update 0 (setTask 0 (\<lambda>t. t\<lparr>Task_Status := TaskStatusRunning,
                      Task_UpdatedAt := now ?E demoState\<rparr>) demoState) = (None, st2)"
    and cli: "NewClient (Task_LLM (st_objs st2 0)) = Inr goodClient"
    and con: "Connect ?E (st_hist (setTask 0 (\<lambda>t. t\<lparr>Task_LLM := clientConfig goodClient\<rparr>) st2))
       = (None, [EvConnect])"
    and opn: "openTarget ?E (st_objs (setTask 0 (\<lambda>t. t\<lparr>Task_LLM := clientConfig goodClient\<rparr>) st2) 0)
       [EvConnect] = (None, [EvConnect, EvNavigate ''http://start.example''])"
    and snp: "TakeSnapshot ?E (Sleep (2 * Second) [EvConnect, EvNavigate ''http://start.example''])
       = (startPage 3, [EvConnect, EvNavigate ''http://start.example'', EvSleep (2 * Second), EvTakeSnapshot])"
    and prs: "ParseTask ?E goodClient
        \<lparr>PReq_UserInput = Task_Description (st_objs (setTask 0 (\<lambda>t. t\<lparr>Task_LLM := clientConfig goodClient\<rparr>) st2) 0),
          PReq_TargetURL = Task_TargetURL (st_objs (setTask 0 (\<lambda>t. t\<lparr>Task_LLM := clientConfig goodClient\<rparr>) st2) 0),
          PReq_PageSnapshot = Some (startPage 3)\<rparr>
        [EvConnect, EvNavigate ''http://start.example'', EvSleep (2 * Second), EvTakeSnapshot]
       = (Inr threeSteps, [EvConnect, EvNavigate ''http://start.example'', EvSleep (2 * Second), EvTakeSnapshot,
                   EvParseTask \<lparr>PReq_UserInput = ''demo'', PReq_TargetURL = ''http://start.example'',
                                 PReq_PageSnapshot = Some (startPage 3)\<rparr>, EvHttpDo q])"
    by blast
  let ?hp = "[EvConnect, EvNavigate ''http://start.example'', EvSleep (2 * Second), EvTakeSnapshot,
                   EvParseTask \<lparr>PReq_UserInput = ''demo'', PReq_TargetURL = ''http://start.example'',
                                 PReq_PageSnapshot = Some (startPage 3)\<rparr>, EvHttpDo q]"
  let ?h1 = "?hp @ [EvClick ''#first'', EvSleep (500 * Millisecond), EvTakeSnapshot]"
  have steps: "Plan_Steps threeSteps = [clickStep 1 ''#first'', clickStep 2 ''#missing'', clickStep 3 ''#third'']"
    by (simp add: threeSteps_def demoSteps_def)
  have first: "stepBody ?E goodClient (clickStep 1 ''#first'') (startPage 3, [], [], ?hp) =
      (startPage 8, [okResult], [], ?h1)"
    using scripted_first[of stepsObject threeSteps refineReply] by simp
  have fails: "executeStep ?E (clickStep 2 ''#missing'') ?h1 =
      ((\<lparr>Res_Success = False, Res_Error = ''element not found'', Res_Screenshot = []\<rparr>, None,
        Some ''element not found''), ?h1 @ [EvClick ''#missing''])"
    by (rule scripted_click_missing)
  from scripted_refine_good[of stepsObject threeSteps "clickStep 2 ''#missing''" "startPage 8"
      "?h1 @ [EvClick ''#missing'']"]
  obtain q1 where refines: "RefineStep ?E goodClient (clickStep 2 ''#missing'') (startPage 8)
      (?h1 @ [EvClick ''#missing'']) =
      (Inr refinedStep, (?h1 @ [EvClick ''#missing'']) @
         [EvRefineStep (clickStep 2 ''#missing'') (startPage 8), EvHttpDo q1])"
    by blast
  have second: "executeStep ?E refinedStep ((?h1 @ [EvClick ''#missing'']) @
         [EvRefineStep (clickStep 2 ''#missing'') (startPage 8), EvHttpDo q1]) =
      ((okResult, None, None), ((?h1 @ [EvClick ''#missing'']) @
         [EvRefineStep (clickStep 2 ''#missing'') (startPage 8), EvHttpDo q1]) @
         [EvClick ''#found'', EvSleep (500 * Millisecond)])"
    by (rule scripted_found)
  note concl = ExecuteTask_reports_refined_outcome[OF upd cli refl con opn snp prs steps first fails
      refines second]
  from concl have res: "(case Task_Result (st_objs (snd (ExecuteTask ?E 0 demoState)) 0) of
      None \<Rightarrow> False
    | Some tr \<Rightarrow> length (TR_Steps tr) = 3
        \<and> DRes_Success (TR_Steps tr ! 1) = Res_Success okResult
        \<and> DRes_Error (TR_Steps tr ! 1) = Res_Error okResult
        \<and> map DRes_Order (TR_Steps tr) = [1, 2, 3])"
    by blast
  from concl obtain post where
    "st_hist (snd (ExecuteTask ?E 0 demoState)) = (((?h1 @ [EvClick ''#missing'']) @
         [EvRefineStep (clickStep 2 ''#missing'') (startPage 8), EvHttpDo q1]) @
         [EvClick ''#found'', EvSleep (500 * Millisecond)]) @ EvTakeSnapshot # post"
    by blast
  then have found: "EvClick ''#found'' \<in> set (st_hist (snd (ExecuteTask ?E 0 demoState)))"
    by simp
  show ?thesis
    unfolding refiningEnv_def using res found by (simp add: okResult_def split: option.splits)
qed

theorem ExecuteTask_keeps_original_error_witness:
  "fst (ExecuteTask refusingEnv 0 demoState) = None
   \<and> Task_Status (st_objs (snd (ExecuteTask refusingEnv 0 demoState)) 0) = TaskStatusCompleted
   \<and> (case Task_Result (st_objs (snd (ExecuteTask refusingEnv 0 demoState)) 0) of
        None \<Rightarrow> False
      | Some tr \<Rightarrow> length (TR_Steps tr) = 3
          \<and> DRes_Success (TR_Steps tr ! 1) = False
          \<and> DRes_Error (TR_Steps tr ! 1) = ''element not found'')
   \<and> EvClick ''#third'' \<in> set (st_hist (snd (ExecuteTask refusingEnv 0 demoState)))"
proof -
  let ?E = "scriptedEnv stepsObject threeSteps ''Sorry, no idea''"
  from scripted_prologue[of stepsObject threeSteps "''Sorry, no idea''"] obtain st2 q where
    upd: "Store_Update 0 (setTask 0 (\<lambda>t. t\<lparr>Task_Status := TaskStatusRunning,
                      Task_UpdatedAt := now ?E demoState\<rparr>) demoState) = (None, st2)"
    and cli: "NewClient (Task_LLM (st_objs st2 0)) = Inr goodClient"
    and con: "Connect ?E (st_hist (setTask 0 (\<lambda>t. t\<lparr>Task_LLM := clientConfig goodClient\<rparr>) st2))
       = (None, [EvConnect])"
    and opn: "openTarget ?E (st_objs (setTask 0 (\<lambda>t. t\<lparr>Task_LLM := clientConfig goodClient\<rparr>) st2) 0)
       [EvConnect] = (None, [EvConnect, EvNavigate ''http://start.example''])"
    and snp: "TakeSnapshot ?E (Sleep (2 * Second) [EvConnect, EvNavigate ''http://start.example''])
       = (startPage 3, [EvConnect, EvNavigate ''http://start.example'', EvSleep (2 * Second), EvTakeSnapshot])"
    and prs: "ParseTask ?E goodClient
        \<lparr>PReq_UserInput = Task_Description (st_objs (setTask 0 (\<lambda>t. t\<lparr>Task_LLM := clientConfig goodClient\<rparr>) st2) 0),
          PReq_TargetURL = Task_TargetURL (st_objs (setTask 0 (\<lambda>t. t\<lparr>Task_LLM := clientConfig goodClient\<rparr>) st2) 0),
          PReq_PageSnapshot = Some (startPage 3)\<rparr>
        [EvConnect, EvNavigate ''http://start.example'', EvSleep (2 * Second), EvTakeSnapshot]
       = (Inr threeSteps, [EvConnect, EvNavigate ''http://start.example'', EvSleep (2 * Second), EvTakeSnapshot,
                   EvParseTask \<lparr>PReq_UserInput = ''demo'', PReq_TargetURL = ''http://start.example'',
                                 PReq_PageSnapshot = Some (startPage 3)\<rparr>, EvHttpDo q])"
    by blast
  let ?hp = "[EvConnect, EvNavigate ''http://start.example'', EvSleep (2 * Second), EvTakeSnapshot,
                   EvParseTask \<lparr>PReq_UserInput = ''demo'', PReq_TargetURL = ''http://start.example'',
                                 PReq_PageSnapshot = Some (startPage 3)\<rparr>, EvHttpDo q]"
  let ?h1 = "?hp @ [EvClick ''#first'', EvSleep (500 * Millisecond), EvTakeSnapshot]"
  have steps: "Plan_Steps threeSteps = [clickStep 1 ''#first'', clickStep 2 ''#missing'', clickStep 3 ''#third'']"
    by (simp add: threeSteps_def demoSteps_def)
  have first: "stepBody ?E goodClient (clickStep 1 ''#first'') (startPage 3, [], [], ?hp) =
      (startPage 8, [okResult], [], ?h1)"
    using scripted_first[of stepsObject threeSteps "''Sorry, no idea''"] by simp
  have fails: "executeStep ?E (clickStep 2 ''#missing'') ?h1 =
      ((\<lparr>Res_Success = False, Res_Error = ''element not found'', Res_Screenshot = []\<rparr>, None,
        Some ''element not found''), ?h1 @ [EvClick ''#missing''])"
    by (rule scripted_click_missing)
  from scripted_refine_bad[of stepsObject threeSteps "clickStep 2 ''#missing''" "startPage 8"
      "?h1 @ [EvClick ''#missing'']"]
  obtain q1 where refines: "RefineStep ?E goodClient (clickStep 2 ''#missing'') (startPage 8)
      (?h1 @ [EvClick ''#missing'']) =
      (Inl ''parse refined step: invalid character'', (?h1 @ [EvClick ''#missing'']) @
         [EvRefineStep (clickStep 2 ''#missing'') (startPage 8), EvHttpDo q1])"
    by blast
  let ?h3 = "(?h1 @ [EvClick ''#missing'']) @
         [EvRefineStep (clickStep 2 ''#missing'') (startPage 8), EvHttpDo q1]"
  note concl = ExecuteTask_keeps_original_error[OF upd cli refl con opn snp prs steps first fails refines]
  from concl have res: "fst (ExecuteTask ?E 0 demoState) = None
     \<and> Task_Status (st_objs (snd (ExecuteTask ?E 0 demoState)) 0) = TaskStatusCompleted
     \<and> (case Task_Result (st_objs (snd (ExecuteTask ?E 0 demoState)) 0) of
            None \<Rightarrow> False
          | Some tr \<Rightarrow> length (TR_Steps tr) = 3
              \<and> DRes_Success (TR_Steps tr ! 1) = False
              \<and> DRes_Error (TR_Steps tr ! 1) = ''element not found'')"
    by blast
  from concl obtain post where
    "st_hist (snd (ExecuteTask ?E 0 demoState)) = snd (executeStep ?E (clickStep 3 ''#third'') ?h3) @ post"
    by blast
  then have third: "EvClick ''#third'' \<in> set (st_hist (snd (ExecuteTask ?E 0 demoState)))"
    by (simp add: scripted_click_ok)
  show ?thesis
    unfolding refusingEnv_def using res third by simp
qed

text \<open>
  Claim C3 on the code. In this run the plan is a click, a navigation to
  \<open>http://slow.example\<close> that times out after the page has changed, and a click on a
  missing element; the model answers both refinement calls with prose. The trace of the run
  shows a snapshot after the first step and none after it. The refinement call for the
  second step receives the snapshot of second 8, taken at \<open>http://start.example\<close> before
  that step ran, although the browser is at \<open>http://slow.example\<close> when the call is made.
  After the failed refinement the loop goes to the third step without recapturing, and the
  refinement call for the third step receives the same snapshot, again with the browser at
  \<open>http://slow.example\<close>.
\<close>

theorem ExecuteTask_refines_on_stale_snapshot:
  "filter isTraceEvent (st_hist (snd (ExecuteTask staleEnv 0 demoState))) =
     [EvNavigate ''http://start.example'', EvTakeSnapshot, EvClick ''#first'', EvTakeSnapshot,
      EvNavigate ''http://slow.example'', EvRefineStep (slowStep\<lparr>Step_Order := 2\<rparr>) (startPage 8),
      EvClick ''#missing'', EvRefineStep (clickStep 3 ''#missing'') (startPage 8)]
   \<and> Snap_URL (startPage 8) = ''http://start.example''
   \<and> Snap_URL (fst (TakeSnapshot staleEnv
        (beforeRefine (slowStep\<lparr>Step_Order := 2\<rparr>) (st_hist (snd (ExecuteTask staleEnv 0 demoState))))))
       = ''http://slow.example''
   \<and> Snap_URL (fst (TakeSnapshot staleEnv
        (beforeRefine (clickStep 3 ''#missing'') (st_hist (snd (ExecuteTask staleEnv 0 demoState))))))
       = ''http://slow.example''"
proof -
  let ?E = "scriptedEnv staleObject stalePlan ''Sorry, no idea''"
  let ?s2 = "slowStep\<lparr>Step_Order := 2\<rparr>"
  let ?s3 = "clickStep 3 ''#missing''"
  from scripted_prologue[of staleObject stalePlan "''Sorry, no idea''"] obtain st2 q where
    upd: "Store_Update 0 (setTask 0 (\<lambda>t. t\<lparr>Task_Status := TaskStatusRunning,
                      Task_UpdatedAt := now ?E demoState\<rparr>) demoState) = (None, st2)"
    and cli: "NewClient (Task_LLM (st_objs st2 0)) = Inr goodClient"
    and con: "Connect ?E (st_hist (setTask 0 (\<lambda>t. t\<lparr>Task_LLM := clientConfig goodClient\<rparr>) st2))
       = (None, [EvConnect])"
    and opn: "openTarget ?E (st_objs (setTask 0 (\<lambda>t. t\<lparr>Task_LLM := clientConfig goodClient\<rparr>) st2) 0)
       [EvConnect] = (None, [EvConnect, EvNavigate ''http://start.example''])"
    and snp: "TakeSnapshot ?E (Sleep (2 * Second) [EvConnect, EvNavigate ''http://start.example''])
       = (startPage 3, [EvConnect, EvNavigate ''http://start.example'', EvSleep (2 * Second), EvTakeSnapshot])"
    and prs: "ParseTask ?E goodClient
        \<lparr>PReq_UserInput = Task_Description (st_objs (setTask 0 (\<lambda>t. t\<lparr>Task_LLM := clientConfig goodClient\<rparr>) st2) 0),
          PReq_TargetURL = Task_TargetURL (st_objs (setTask 0 (\<lambda>t. t\<lparr>Task_LLM := clientConfig goodClient\<rparr>) st2) 0),
          PReq_PageSnapshot = Some (startPage 3)\<rparr>
        [EvConnect, EvNavigate ''http://start.example'', EvSleep (2 * Second), EvTakeSnapshot]
       = (Inr stalePlan, [EvConnect, EvNavigate ''http://start.example'', EvSleep (2 * Second), EvTakeSnapshot,
                   EvParseTask \<lparr>PReq_UserInput = ''demo'', PReq_TargetURL = ''http://start.example'',
                                 PReq_PageSnapshot = Some (startPage 3)\<rparr>, EvHttpDo q])"
    and fmt: "Out_Formats (Task_Output (st_objs (setTask 0 (\<lambda>t. t\<lparr>Task_LLM := clientConfig goodClient\<rparr>) st2) 0))
       = [''markdown'']"
    by blast
  let ?st3 = "setTask 0 (\<lambda>t. t\<lparr>Task_LLM := clientConfig goodClient\<rparr>) st2"
  let ?req = "\<lparr>PReq_UserInput = ''demo'', PReq_TargetURL = ''http://start.example'',
                                 PReq_PageSnapshot = Some (startPage 3)\<rparr>"
  let ?hp = "[EvConnect, EvNavigate ''http://start.example'', EvSleep (2 * Second), EvTakeSnapshot,
                   EvParseTask ?req, EvHttpDo q]"
  let ?h1 = "?hp @ [EvClick ''#first'', EvSleep (500 * Millisecond), EvTakeSnapshot]"
  let ?h2 = "?h1 @ [EvNavigate ''http://slow.example'']"
  from scripted_refine_bad[of staleObject stalePlan ?s2 "startPage 8" ?h2]
  obtain q1 where refine2: "RefineStep ?E goodClient ?s2 (startPage 8) ?h2 =
      (Inl ''parse refined step: invalid character'', ?h2 @ [EvRefineStep ?s2 (startPage 8), EvHttpDo q1])"
    by blast
  let ?h3 = "?h2 @ [EvRefineStep ?s2 (startPage 8), EvHttpDo q1]"
  let ?h4 = "?h3 @ [EvClick ''#missing'']"
  from scripted_refine_bad[of staleObject stalePlan ?s3 "startPage 8" ?h4]
  obtain q2 where refine3: "RefineStep ?E goodClient ?s3 (startPage 8) ?h4 =
      (Inl ''parse refined step: invalid character'', ?h4 @ [EvRefineStep ?s3 (startPage 8), EvHttpDo q2])"
    by blast
  let ?hF = "?h4 @ [EvRefineStep ?s3 (startPage 8), EvHttpDo q2]"
  let ?failed2 = "\<lparr>Res_Success = False, Res_Error = ''Timeout 30000ms exceeded'', Res_Screenshot = []\<rparr>"
  let ?failed3 = "\<lparr>Res_Success = False, Res_Error = ''element not found'', Res_Screenshot = []\<rparr>"
  have b1: "stepBody ?E goodClient (clickStep 1 ''#first'') (startPage 3, [], [], ?hp) =
      (startPage 8, [okResult], [], ?h1)"
    using scripted_first[of staleObject stalePlan "''Sorry, no idea''"] by simp
  have b2: "stepBody ?E goodClient ?s2 (startPage 8, [okResult], [], ?h1) =
      (startPage 8, [okResult] @ [?failed2], [], ?h3)"
    by (rule stepBody_refine_failed[OF scripted_slow refine2])
  have b3: "stepBody ?E goodClient ?s3 (startPage 8, [okResult] @ [?failed2], [], ?h3) =
      (startPage 8, ([okResult] @ [?failed2]) @ [?failed3], [], ?hF)"
    by (rule stepBody_refine_failed[OF scripted_click_missing refine3])
  have steps: "Plan_Steps stalePlan = [clickStep 1 ''#first'', ?s2, ?s3]"
    by (simp add: stalePlan_def)
  have h0: "st_hist (?st3\<lparr>st_hist := ?hp\<rparr>) = ?hp"
    by simp
  have loop: "stepLoop ?E goodClient (Plan_Steps stalePlan)
       (startPage 3, [], [], st_hist (?st3\<lparr>st_hist := ?hp\<rparr>)) =
      (startPage 8, ([okResult] @ [?failed2]) @ [?failed3], [], ?hF)"
    unfolding steps h0 by (simp only: stepLoop.simps b1 b2 b3)
  have E: "ExecuteTask ?E 0 demoState =
      (fst (runSteps ?E 0 goodClient (now ?E st2) stalePlan (startPage 3) (?st3\<lparr>st_hist := ?hp\<rparr>)),
       (snd (runSteps ?E 0 goodClient (now ?E st2) stalePlan (startPage 3) (?st3\<lparr>st_hist := ?hp\<rparr>)))
         \<lparr>st_hist := Close ?E (st_hist (snd (runSteps ?E 0 goodClient (now ?E st2) stalePlan (startPage 3)
                                                (?st3\<lparr>st_hist := ?hp\<rparr>))))\<rparr>)"
    by (rule ExecuteTask_enters_loop[OF upd cli refl con opn snp prs])
  have fmt': "Out_Formats (Task_Output (st_objs (?st3\<lparr>st_hist := ?hp\<rparr>) 0)) = [''markdown'']"
    using fmt by simp
  have R: "st_hist (snd (runSteps ?E 0 goodClient (now ?E st2) stalePlan (startPage 3) (?st3\<lparr>st_hist := ?hp\<rparr>)))
      = ?hF @ [EvGenerate ''markdown'', EvUUID]"
    unfolding runSteps_history[OF loop] fmt' scripted_markdown by (rule refl)
  have hist: "st_hist (snd (ExecuteTask ?E 0 demoState)) = (?hF @ [EvGenerate ''markdown'', EvUUID]) @ [EvClose]"
    unfolding E by (simp add: R Close_def)
  have ne: "?s2 \<noteq> ?s3"
    by (simp add: slowStep_def clickStep_def)
  have trace: "filter isTraceEvent (st_hist (snd (ExecuteTask ?E 0 demoState))) =
     [EvNavigate ''http://start.example'', EvTakeSnapshot, EvClick ''#first'', EvTakeSnapshot,
      EvNavigate ''http://slow.example'', EvRefineStep ?s2 (startPage 8),
      EvClick ''#missing'', EvRefineStep ?s3 (startPage 8)]"
    unfolding hist by simp
  have url: "Snap_URL (startPage 8) = ''http://start.example''"
    by (simp add: startPage_def)
  have at2: "beforeRefine ?s2 (st_hist (snd (ExecuteTask ?E 0 demoState))) = ?h2"
    unfolding hist by simp
  have at3: "beforeRefine ?s3 (st_hist (snd (ExecuteTask ?E 0 demoState))) = ?h4"
    unfolding hist using ne by simp
  have page2: "Snap_URL (fst (TakeSnapshot ?E ?h2)) = ''http://slow.example''"
    by (simp add: TakeSnapshot_def scriptedEnv_def demoEnv_def lastNavigated_def)
  have page3: "Snap_URL (fst (TakeSnapshot ?E ?h4)) = ''http://slow.example''"
    by (simp add: TakeSnapshot_def scriptedEnv_def demoEnv_def lastNavigated_def)
  show ?thesis
    unfolding staleEnv_def at2 at3 using trace url page2 page3 by blast
qed

end
